theory Spec2Isabelle
  imports Complex_Main
begin

section \<open>Numbers\<close>

text \<open>
  The simulator computes with Python floats. They are modelled as mathematical reals
  (no rounding, no NaN); the one infinite value the code produces, \<^verbatim>\<open>float('inf')\<close>,
  is a constructor of its own in the type of scores further down. Python's unbounded
  integers are \<^typ>\<open>int\<close>.
\<close>

section \<open>Edge server queue model (quick\_simulation.py, class EdgeServer)\<close>

record EdgeServer =
  server_id :: int
  mips :: real
  max_queue :: int
  queued_processing_times :: "real list"
  next_available :: real
  total_busy_time :: real

text \<open>\<^verbatim>\<open>EdgeServer.__init__(self, server_id, mips, max_queue)\<close>\<close>

definition EdgeServer_init :: "int \<Rightarrow> real \<Rightarrow> int \<Rightarrow> EdgeServer" where
  "EdgeServer_init sid m mq =
     \<lparr>server_id = sid, mips = m, max_queue = mq,
      queued_processing_times = [], next_available = 0, total_busy_time = 0\<rparr>"

definition get_queue_length :: "EdgeServer \<Rightarrow> int" where
  "get_queue_length s = int (length (queued_processing_times s))"

definition get_utilization :: "EdgeServer \<Rightarrow> real \<Rightarrow> real" where
  "get_utilization s current_time =
     (if current_time \<le> 0 then 0
      else min 100 ((total_busy_time s / current_time) * 100))"

definition estimate_wait_time :: "EdgeServer \<Rightarrow> real \<Rightarrow> real" where
  "estimate_wait_time s current_time =
     max 0 (next_available s - current_time) + sum_list (queued_processing_times s)"

definition can_accept_task :: "EdgeServer \<Rightarrow> bool" where
  "can_accept_task s \<longleftrightarrow> int (length (queued_processing_times s)) < max_queue s"

text \<open>
  \<^verbatim>\<open>submit_task\<close> returns the pair \<^verbatim>\<open>(total_time, failed)\<close>, with \<^verbatim>\<open>None\<close> for the time
  on rejection, and mutates the server; the model returns the pair together with the
  server after the call. The \<^verbatim>\<open>for pt in queue: wait_time += pt\<close> loop is the left fold.
\<close>

definition submit_task ::
  "EdgeServer \<Rightarrow> real \<Rightarrow> real \<Rightarrow> (real option \<times> bool) \<times> EdgeServer" where
  "submit_task s current_time processing_time =
     (if \<not> can_accept_task s then ((None, True), s)
      else
        let wait_time = foldl (+) (max 0 (next_available s - current_time))
                          (queued_processing_times s);
            total_time = wait_time + processing_time
        in ((Some total_time, False),
            s\<lparr>queued_processing_times := queued_processing_times s @ [processing_time],
              next_available := current_time + total_time,
              total_busy_time := total_busy_time s + processing_time\<rparr>))"

text \<open>
  \<^verbatim>\<open>update\<close>: the first loop pops the head while the queue is non-empty and
  \<^verbatim>\<open>next_available <= current_time\<close>; the second consumes \<^verbatim>\<open>elapsed\<close> from the head on.
\<close>

fun pop_finished :: "real \<Rightarrow> real \<Rightarrow> real list \<Rightarrow> real list" where
  "pop_finished na current_time [] = []"
| "pop_finished na current_time (x # xs) =
     (if na \<le> current_time then pop_finished na current_time xs else x # xs)"

fun consume_elapsed :: "real \<Rightarrow> real list \<Rightarrow> real list" where
  "consume_elapsed elapsed [] = []"
| "consume_elapsed elapsed (x # xs) =
     (if elapsed > 0
      then (if elapsed \<ge> x then consume_elapsed (elapsed - x) xs
            else (x - elapsed) # xs)
      else x # xs)"

definition update :: "EdgeServer \<Rightarrow> real \<Rightarrow> EdgeServer" where
  "update s current_time =
     (let q = pop_finished (next_available s) current_time (queued_processing_times s);
          elapsed = current_time -
                    (if q \<noteq> [] then next_available s - sum_list q else current_time)
      in s\<lparr>queued_processing_times := consume_elapsed elapsed q\<rparr>)"

text \<open>The invariant of the data model: the queue never holds more than \<open>max_queue\<close> entries.\<close>

definition queue_inv :: "EdgeServer \<Rightarrow> bool" where
  "queue_inv s \<longleftrightarrow> int (length (queued_processing_times s)) \<le> max_queue s"

text \<open>
  A history of a server: the mutating calls made on it after construction. The
  read-only methods (\<^verbatim>\<open>estimate_wait_time\<close>, \<^verbatim>\<open>can_accept_task\<close>,
  \<^verbatim>\<open>get_utilization\<close>, \<^verbatim>\<open>get_queue_length\<close>) are functions of the state alone and
  return no new state, so they do not occur in a history.
\<close>

datatype server_call = Submit real real | Update real

fun apply_call :: "EdgeServer \<Rightarrow> server_call \<Rightarrow> EdgeServer" where
  "apply_call s (Submit now pt) = snd (submit_task s now pt)"
| "apply_call s (Update now) = update s now"

definition run_calls :: "EdgeServer \<Rightarrow> server_call list \<Rightarrow> EdgeServer" where
  "run_calls s cs = foldl apply_call s cs"

fun nonneg_call :: "server_call \<Rightarrow> bool" where
  "nonneg_call (Submit now pt) \<longleftrightarrow> 0 \<le> pt"
| "nonneg_call (Update now) \<longleftrightarrow> True"

definition queue_nonneg :: "EdgeServer \<Rightarrow> bool" where
  "queue_nonneg s \<longleftrightarrow> (\<forall>x\<in>set (queued_processing_times s). 0 \<le> x)"

section \<open>Configuration, application types and events (quick\_simulation.py)\<close>

datatype py_error = ZeroDivisionError | ValueError | IndexError | TypeError

datatype DeviceType = MOBILE | EDGE | CLOUD

record SimConfig =
  simulation_time :: real
  warm_up_period :: real
  mobile_power_idle :: real
  mobile_power_active :: real
  mobile_power_transmit :: real
  mobile_mips :: real
  edge_mips :: real
  cloud_mips :: real
  wlan_bandwidth :: real
  wan_bandwidth :: real
  wan_propagation_delay :: real
  num_edge_servers :: int
  max_edge_queue :: int
  alpha :: real
  beta :: real

text \<open>The defaults of the dataclass \<^verbatim>\<open>SimConfig\<close>.\<close>

definition SimConfig_default :: SimConfig where
  "SimConfig_default =
     \<lparr>simulation_time = 300, warm_up_period = 30,
      mobile_power_idle = 0.3, mobile_power_active = 1.8, mobile_power_transmit = 1.2,
      mobile_mips = 500, edge_mips = 8000, cloud_mips = 20000,
      wlan_bandwidth = 50, wan_bandwidth = 20, wan_propagation_delay = 0.08,
      num_edge_servers = 5, max_edge_queue = 15, alpha = 0.6, beta = 0.4\<rparr>"

record AppType =
  name :: string
  usage_pct :: real
  delay_sens :: real
  max_delay :: real
  interarrival :: real
  upload_kb :: real
  download_kb :: real
  task_mi :: real

text \<open>
  One entry of the event heap: the tuple
  \<^verbatim>\<open>(t, device_id, app, task_len, data_size, deadline)\<close>.
\<close>

record event =
  ev_t :: real
  ev_device_id :: int
  ev_app :: AppType
  ev_task_len :: real
  ev_data_size :: real
  ev_deadline :: real

section \<open>Scores and Python's \<^verbatim>\<open>min(d, key=d.get)\<close>\<close>

text \<open>A score or a fallback time: a finite float or \<^verbatim>\<open>float('inf')\<close>.\<close>

datatype score = Fin real | PInf

fun score_less :: "score \<Rightarrow> score \<Rightarrow> bool" where
  "score_less (Fin a) (Fin b) \<longleftrightarrow> a < b"
| "score_less (Fin a) PInf \<longleftrightarrow> True"
| "score_less PInf b \<longleftrightarrow> False"

text \<open>
  \<^verbatim>\<open>min(iterable, key=...)\<close> keeps the first item and replaces it only by an item whose
  key is strictly smaller: the first minimal item in iteration order wins. A dict
  iterates in insertion order, so a dict is the list of its items here.
\<close>

fun min_key_from :: "('v \<Rightarrow> 'v \<Rightarrow> bool) \<Rightarrow> 'k \<times> 'v \<Rightarrow> ('k \<times> 'v) list \<Rightarrow> 'k" where
  "min_key_from lt best [] = fst best"
| "min_key_from lt best (kv # kvs) =
     min_key_from lt (if lt (snd kv) (snd best) then kv else best) kvs"

text \<open>\<^verbatim>\<open>np.mean\<close> of a non-empty list (of an empty list numpy returns NaN).\<close>

definition mean :: "real list \<Rightarrow> real" where
  "mean xs = sum_list xs / real (length xs)"

section \<open>Estimates of time and energy (run\_simulation, lines 178--194)\<close>

record estimates =
  local_time :: real
  wlan_delay :: real
  edge_processing :: real
  best_server_idx :: nat
  edge_queue_delay :: real
  edge_time :: real
  cloud_time :: real
  local_energy :: real
  edge_energy :: real
  cloud_energy :: real

definition load_factor :: "int \<Rightarrow> real" where
  "load_factor num_devices = 1.0 + (real_of_int num_devices / 200) * 0.5"

text \<open>
  The divisions raise \<^verbatim>\<open>ZeroDivisionError\<close> on a zero divisor, \<^verbatim>\<open>min\<close> over the empty
  \<^verbatim>\<open>range(cfg.num_edge_servers)\<close> raises \<^verbatim>\<open>ValueError\<close>, and an index beyond the server
  list raises \<^verbatim>\<open>IndexError\<close>, in the order in which the statements run.
\<close>

definition compute_estimates ::
  "SimConfig \<Rightarrow> int \<Rightarrow> EdgeServer list \<Rightarrow> event \<Rightarrow> py_error + estimates" where
  "compute_estimates cfg num_devices edge_servers ev =
     (let t = ev_t ev; task_len = ev_task_len ev; data_size = ev_data_size ev in
      if mobile_mips cfg = 0 \<or> wlan_bandwidth cfg * 1000 = 0 \<or> edge_mips cfg = 0
        then Inl ZeroDivisionError
      else if num_edge_servers cfg \<le> 0 then Inl ValueError
      else if length edge_servers < nat (num_edge_servers cfg) then Inl IndexError
      else if wan_bandwidth cfg * 1000 = 0 \<or> cloud_mips cfg = 0 then Inl ZeroDivisionError
      else
        let local_time' = (task_len / mobile_mips cfg) * load_factor num_devices;
            wlan_delay' = (data_size * 8) / (wlan_bandwidth cfg * 1000);
            edge_processing' = task_len / edge_mips cfg;
            wait = (\<lambda>i. estimate_wait_time (edge_servers ! i) t);
            best = min_key_from (<) (0, wait 0)
                     (map (\<lambda>i. (i, wait i)) [1..<nat (num_edge_servers cfg)]);
            edge_queue_delay' = estimate_wait_time (edge_servers ! best) t;
            edge_time' = wlan_delay' * 2 + edge_processing' + edge_queue_delay';
            wan_delay = (data_size * 8) / (wan_bandwidth cfg * 1000)
                        + wan_propagation_delay cfg;
            cloud_processing = task_len / cloud_mips cfg;
            cloud_time' = wan_delay * 2 + cloud_processing
        in Inr \<lparr>local_time = local_time', wlan_delay = wlan_delay',
                 edge_processing = edge_processing', best_server_idx = best,
                 edge_queue_delay = edge_queue_delay', edge_time = edge_time',
                 cloud_time = cloud_time',
                 local_energy = mobile_power_active cfg * local_time',
                 edge_energy = mobile_power_transmit cfg * wlan_delay' * 2
                               + mobile_power_idle cfg * (edge_processing' + edge_queue_delay'),
                 cloud_energy = mobile_power_transmit cfg * wan_delay * 2
                                + mobile_power_idle cfg * cloud_processing\<rparr>)"

text \<open>The estimated completion time of a location.\<close>

fun time_at :: "estimates \<Rightarrow> DeviceType \<Rightarrow> real" where
  "time_at est MOBILE = local_time est"
| "time_at est EDGE = edge_time est"
| "time_at est CLOUD = cloud_time est"

section \<open>The decision policies (run\_simulation, lines 196--246)\<close>

text \<open>\<^verbatim>\<open>calc_score\<close>, a closure over the adaptive weights and the two normalisers.\<close>

definition calc_score ::
  "real \<Rightarrow> real \<Rightarrow> real \<Rightarrow> real \<Rightarrow> real \<Rightarrow> real \<Rightarrow> bool \<Rightarrow> score" where
  "calc_score adaptive_alpha adaptive_beta max_time max_energy time energy meets_deadline =
     (if \<not> meets_deadline then PInf
      else
        let time_norm = (if max_time > 0 then time / max_time else 0);
            energy_norm = (if max_energy > 0 then energy / max_energy else 0)
        in Fin (adaptive_alpha * time_norm + adaptive_beta * energy_norm))"

definition avg_util :: "EdgeServer list \<Rightarrow> real \<Rightarrow> real" where
  "avg_util edge_servers t = mean (map (\<lambda>s. get_utilization s t) edge_servers)"

text \<open>
  The three scores as they stand when the dict \<^verbatim>\<open>scores\<close> is built (line 239), in the
  order local, edge, cloud. The penalty factor is larger than 1 where it is applied, so
  an infinite edge score stays infinite under it.
\<close>

definition eadc_scores ::
  "SimConfig \<Rightarrow> AppType \<Rightarrow> real \<Rightarrow> real \<Rightarrow> EdgeServer list \<Rightarrow> estimates
     \<Rightarrow> score \<times> score \<times> score" where
  "eadc_scores cfg app deadline t edge_servers est =
     (let adaptive_alpha = alpha cfg * (1 + delay_sens app * 0.5);
          adaptive_beta = beta cfg * (1 - delay_sens app * 0.3);
          max_time = max (local_time est) (max (edge_time est) (max (cloud_time est) deadline));
          max_energy = max (local_energy est) (max (edge_energy est) (cloud_energy est));
          sc = calc_score adaptive_alpha adaptive_beta max_time max_energy;
          local_score = sc (local_time est) (local_energy est) (local_time est \<le> deadline);
          edge_score = sc (edge_time est) (edge_energy est) (edge_time est \<le> deadline);
          cloud_score = sc (cloud_time est) (cloud_energy est) (cloud_time est \<le> deadline);
          u = avg_util edge_servers t;
          edge_score1 = (if u > 70
                         then (case edge_score of
                                 Fin x \<Rightarrow> Fin (x * (1 + (u - 70) / 50))
                               | PInf \<Rightarrow> PInf)
                         else edge_score);
          edge_score2 = (if \<not> can_accept_task (edge_servers ! best_server_idx est)
                         then PInf else edge_score1)
      in (local_score, edge_score2, cloud_score))"

fun score_at :: "score \<times> score \<times> score \<Rightarrow> DeviceType \<Rightarrow> score" where
  "score_at (l, e, c) MOBILE = l"
| "score_at (l, e, c) EDGE = e"
| "score_at (l, e, c) CLOUD = c"

definition fallback_times :: "EdgeServer list \<Rightarrow> estimates \<Rightarrow> score \<times> score \<times> score" where
  "fallback_times edge_servers est =
     (Fin (local_time est),
      (if \<not> can_accept_task (edge_servers ! best_server_idx est) then PInf
       else Fin (edge_time est)),
      Fin (cloud_time est))"

definition min_of_three :: "score \<times> score \<times> score \<Rightarrow> DeviceType" where
  "min_of_three d =
     min_key_from score_less (MOBILE, score_at d MOBILE)
       [(EDGE, score_at d EDGE), (CLOUD, score_at d CLOUD)]"

definition eadc_decide ::
  "SimConfig \<Rightarrow> AppType \<Rightarrow> real \<Rightarrow> real \<Rightarrow> EdgeServer list \<Rightarrow> estimates \<Rightarrow> DeviceType" where
  "eadc_decide cfg app deadline t edge_servers est =
     (let scores = eadc_scores cfg app deadline t edge_servers est;
          decision = min_of_three scores
      in if score_at scores decision = PInf
         then min_of_three (fallback_times edge_servers est)
         else decision)"

definition greedy_energy_decide :: "estimates \<Rightarrow> DeviceType" where
  "greedy_energy_decide est =
     min_key_from (<) (MOBILE, local_energy est)
       [(EDGE, edge_energy est), (CLOUD, cloud_energy est)]"

definition greedy_deadline_decide :: "estimates \<Rightarrow> DeviceType" where
  "greedy_deadline_decide est =
     min_key_from (<) (MOBILE, local_time est)
       [(EDGE, edge_time est), (CLOUD, cloud_time est)]"

definition random_decide :: "real \<Rightarrow> DeviceType" where
  "random_decide r = (if r < 0.33 then MOBILE else (if r < 0.66 then EDGE else CLOUD))"

definition edge_only_decide :: "EdgeServer list \<Rightarrow> estimates \<Rightarrow> DeviceType" where
  "edge_only_decide edge_servers est =
     (if can_accept_task (edge_servers ! best_server_idx est) then EDGE else CLOUD)"

section \<open>The aggregator loop (run\_simulation, lines 169--280)\<close>

text \<open>
  The dict \<^verbatim>\<open>results\<close>, and the state the loop mutates: the servers, the results and the
  position in the stream of values that \<^verbatim>\<open>random.random()\<close> returns. The stream is a
  parameter \<open>rnd\<close> of the loop, and a call of \<^verbatim>\<open>random.random()\<close> reads it at the position
  and moves the position on by one.
\<close>

record sim_results =
  service_times :: "real list"
  energies :: "real list"
  deadline_met :: "int list"
  failed :: int
  local :: int
  edge :: int
  cloud :: int
  edge_rejected :: int

record sim_state =
  edge_servers :: "EdgeServer list"
  results :: sim_results
  rng_pos :: nat

definition jitter :: "real \<Rightarrow> real" where
  "jitter r = 0.9 + r * 0.2"

text \<open>Lines 196--246: the dispatch on the policy name; every other name runs EADC.\<close>

definition decide ::
  "(nat \<Rightarrow> real) \<Rightarrow> string \<Rightarrow> SimConfig \<Rightarrow> event \<Rightarrow> sim_state \<Rightarrow> estimates
     \<Rightarrow> DeviceType \<times> sim_state" where
  "decide rnd policy cfg ev st est =
     (if policy = ''RANDOM''
        then (random_decide (rnd (rng_pos st)), st\<lparr>rng_pos := rng_pos st + 1\<rparr>)
      else if policy = ''GREEDY_ENERGY'' then (greedy_energy_decide est, st)
      else if policy = ''GREEDY_DEADLINE'' then (greedy_deadline_decide est, st)
      else if policy = ''EDGE_ONLY'' then (edge_only_decide (edge_servers st) est, st)
      else (eadc_decide cfg (ev_app ev) (ev_deadline ev) (ev_t ev) (edge_servers st) est, st))"

text \<open>
  Lines 248--272: the decision is carried out. \<open>Executed actual_time energy st\<close> is the
  normal way out of the block; \<open>Skipped st\<close> is the \<^verbatim>\<open>continue\<close> of line 264, taken when
  \<^verbatim>\<open>submit_task\<close> reports a rejection. Adding \<^verbatim>\<open>None\<close> to a float raises \<^verbatim>\<open>TypeError\<close>.
\<close>

datatype commit_outcome = Skipped sim_state | Executed real real sim_state

definition commit ::
  "(nat \<Rightarrow> real) \<Rightarrow> sim_state \<Rightarrow> DeviceType \<Rightarrow> real \<Rightarrow> estimates
     \<Rightarrow> py_error + commit_outcome" where
  "commit rnd st decision t est =
     (let r1 = rnd (rng_pos st); r2 = rnd (rng_pos st + 1); res = results st in
      case decision of
        MOBILE \<Rightarrow>
          Inr (Executed (local_time est * jitter r1) (local_energy est * jitter r2)
                 (st\<lparr>results := res\<lparr>local := local res + 1\<rparr>, rng_pos := rng_pos st + 2\<rparr>))
      | EDGE \<Rightarrow>
          if \<not> can_accept_task (edge_servers st ! best_server_idx est)
          then Inr (Executed (cloud_time est * jitter r1) (cloud_energy est * jitter r2)
                      (st\<lparr>results := res\<lparr>cloud := cloud res + 1,
                                          edge_rejected := edge_rejected res + 1\<rparr>,
                         rng_pos := rng_pos st + 2\<rparr>))
          else
            (case submit_task (edge_servers st ! best_server_idx est) t (edge_processing est) of
               ((svc_time, failed'), s') \<Rightarrow>
                 let servers' = (edge_servers st)[best_server_idx est := s'] in
                 if failed'
                 then Inr (Skipped (st\<lparr>edge_servers := servers',
                                       results := res\<lparr>failed := failed res + 1\<rparr>\<rparr>))
                 else
                   (case svc_time of
                      None \<Rightarrow> Inl TypeError
                    | Some v \<Rightarrow>
                        Inr (Executed ((wlan_delay est * 2 + v) * jitter r1)
                               (edge_energy est * jitter r2)
                               (st\<lparr>edge_servers := servers',
                                  results := res\<lparr>edge := edge res + 1\<rparr>,
                                  rng_pos := rng_pos st + 2\<rparr>))))
      | CLOUD \<Rightarrow>
          Inr (Executed (cloud_time est * jitter r1) (cloud_energy est * jitter r2)
                 (st\<lparr>results := res\<lparr>cloud := cloud res + 1\<rparr>, rng_pos := rng_pos st + 2\<rparr>)))"

text \<open>Lines 274--280: the failure draw and the recording of the outcome.\<close>

definition record_outcome ::
  "(nat \<Rightarrow> real) \<Rightarrow> int \<Rightarrow> real \<Rightarrow> real \<Rightarrow> real \<Rightarrow> sim_state \<Rightarrow> sim_state" where
  "record_outcome rnd num_devices deadline actual_time energy st =
     (let failure_prob = 0.005 + (real_of_int num_devices / 1000) * 0.02;
          r = rnd (rng_pos st);
          res = results st
      in if r < failure_prob
         then st\<lparr>results := res\<lparr>failed := failed res + 1\<rparr>, rng_pos := rng_pos st + 1\<rparr>
         else st\<lparr>results := res\<lparr>service_times := service_times res @ [actual_time],
                                energies := energies res @ [energy],
                                deadline_met := deadline_met res
                                                  @ [if actual_time \<le> deadline then 1 else 0]\<rparr>,
                 rng_pos := rng_pos st + 1\<rparr>)"

text \<open>One iteration of \<^verbatim>\<open>while events\<close>, for the event just popped from the heap.\<close>

definition process_event ::
  "(nat \<Rightarrow> real) \<Rightarrow> string \<Rightarrow> int \<Rightarrow> SimConfig \<Rightarrow> sim_state \<Rightarrow> event
     \<Rightarrow> py_error + sim_state" where
  "process_event rnd policy num_devices cfg st ev =
     (let t = ev_t ev;
          st1 = st\<lparr>edge_servers := map (\<lambda>s. update s t) (edge_servers st)\<rparr>
      in if t < warm_up_period cfg then Inr st1
         else
           (case compute_estimates cfg num_devices (edge_servers st1) ev of
              Inl e \<Rightarrow> Inl e
            | Inr est \<Rightarrow>
                (case decide rnd policy cfg ev st1 est of
                   (decision, st2) \<Rightarrow>
                     (case commit rnd st2 decision t est of
                        Inl e \<Rightarrow> Inl e
                      | Inr (Skipped st3) \<Rightarrow> Inr st3
                      | Inr (Executed actual_time energy st3) \<Rightarrow>
                          Inr (record_outcome rnd num_devices (ev_deadline ev)
                                 actual_time energy st3)))))"

text \<open>
  The loop over the events in the order in which the heap yields them, from the state
  that \<^verbatim>\<open>run_simulation\<close> sets up. The generation of the events draws from the random
  module before the loop starts and is not part of the model: the events are an input.
\<close>

fun run_loop ::
  "(nat \<Rightarrow> real) \<Rightarrow> string \<Rightarrow> int \<Rightarrow> SimConfig \<Rightarrow> sim_state \<Rightarrow> event list
     \<Rightarrow> py_error + sim_state" where
  "run_loop rnd policy num_devices cfg st [] = Inr st"
| "run_loop rnd policy num_devices cfg st (ev # evs) =
     (case process_event rnd policy num_devices cfg st ev of
        Inl e \<Rightarrow> Inl e
      | Inr st' \<Rightarrow> run_loop rnd policy num_devices cfg st' evs)"

definition initial_state :: "SimConfig \<Rightarrow> sim_state" where
  "initial_state cfg =
     \<lparr>edge_servers = map (\<lambda>i. EdgeServer_init (int i) (edge_mips cfg) (max_edge_queue cfg))
                        [0..<nat (num_edge_servers cfg)],
      results = \<lparr>service_times = [], energies = [], deadline_met = [],
                 failed = 0, local = 0, edge = 0, cloud = 0, edge_rejected = 0\<rparr>,
      rng_pos = 0\<rparr>"

definition run_simulation ::
  "(nat \<Rightarrow> real) \<Rightarrow> string \<Rightarrow> int \<Rightarrow> SimConfig \<Rightarrow> event list \<Rightarrow> py_error + sim_state" where
  "run_simulation rnd policy num_devices cfg events =
     run_loop rnd policy num_devices cfg (initial_state cfg) events"

text \<open>The field \<^verbatim>\<open>deadline_rate\<close> of the returned dict.\<close>

definition deadline_rate :: "sim_results \<Rightarrow> real" where
  "deadline_rate res =
     (if deadline_met res \<noteq> []
      then real_of_int (sum_list (deadline_met res)) / real (length (deadline_met res))
      else 0)"

section \<open>GreedyDeadlineAlgorithm (energy\_aware\_simulation.py)\<close>

text \<open>
  The second script has dataclasses of its own. Every field of them carries a prime
  here, since most of the names are fields of the records above already.
\<close>

record SimulationConfig =
  simulation_time' :: real
  warm_up_period' :: real
  mobile_power_idle' :: real
  mobile_power_active' :: real
  mobile_power_transmit' :: real
  mobile_mips' :: real
  edge_mips' :: real
  cloud_mips' :: real
  wlan_bandwidth' :: real
  wan_bandwidth' :: real
  wan_propagation_delay' :: real
  num_edge_servers' :: int
  vms_per_edge_server' :: int
  alpha' :: real
  beta' :: real

record ApplicationType =
  name' :: string
  usage_percentage' :: real
  delay_sensitivity_of_app' :: real
  max_delay_requirement' :: real
  poisson_interarrival' :: real
  data_upload' :: real
  data_download' :: real
  task_length_of_app' :: real

record Task =
  task_id' :: int
  mobile_device_id' :: int
  app_type' :: ApplicationType
  creation_time' :: real
  task_length' :: real
  input_size' :: real
  output_size' :: real
  deadline' :: real
  delay_sensitivity' :: real
  offload_decision' :: "DeviceType option"
  start_time' :: "real option"
  finish_time' :: "real option"
  service_time' :: "real option"
  energy_consumed' :: "real option"
  deadline_met' :: "bool option"
  failed' :: bool

text \<open>The dataclass \<^verbatim>\<open>EdgeServer\<close> of the second script: a utilization, no queue.\<close>

record EdgeServer' =
  server_id' :: int
  current_utilization' :: real
  tasks_in_queue' :: int

text \<open>
  The estimators of \<^verbatim>\<open>OffloadingAlgorithm\<close> (lines 165--186). A division by a zero
  field of the configuration raises \<^verbatim>\<open>ZeroDivisionError\<close>.
\<close>

definition estimate_local_time :: "SimulationConfig \<Rightarrow> Task \<Rightarrow> py_error + real" where
  "estimate_local_time config task =
     (if mobile_mips' config = 0 then Inl ZeroDivisionError
      else Inr (task_length' task / mobile_mips' config))"

text \<open>
  Of an empty server list \<^verbatim>\<open>np.mean\<close> is NaN, and so is the edge estimate; the value
  below is then not the code's, and \<open>GreedyDeadlineAlgorithm_decide\<close> does not use it.
\<close>

definition estimate_edge_time ::
  "SimulationConfig \<Rightarrow> Task \<Rightarrow> EdgeServer' list \<Rightarrow> py_error + real" where
  "estimate_edge_time config task servers =
     (let data_size = input_size' task + output_size' task in
      if wlan_bandwidth' config * 1000 = 0 \<or> edge_mips' config = 0
        then Inl ZeroDivisionError
      else
        let transmission_delay = (data_size * 8) / (wlan_bandwidth' config * 1000);
            processing_time = task_length' task / edge_mips' config;
            avg_utilization = mean (map current_utilization' servers);
            queuing_delay = (avg_utilization / 100) * processing_time * 0.5
        in Inr (transmission_delay + processing_time + queuing_delay))"

definition estimate_cloud_time :: "SimulationConfig \<Rightarrow> Task \<Rightarrow> py_error + real" where
  "estimate_cloud_time config task =
     (let data_size = input_size' task + output_size' task in
      if wan_bandwidth' config * 1000 = 0 \<or> cloud_mips' config = 0
        then Inl ZeroDivisionError
      else
        let transmission_delay = (data_size * 8) / (wan_bandwidth' config * 1000)
                                 + wan_propagation_delay' config * 2;
            processing_time = task_length' task / cloud_mips' config
        in Inr (transmission_delay + processing_time))"

text \<open>
  Lines 236--243 of \<^verbatim>\<open>GreedyDeadlineAlgorithm.decide\<close>, on the dict \<^verbatim>\<open>times\<close> given as
  its first item and the others: the dict comprehension keeps the entries that meet
  the deadline, in insertion order; the fastest of them is returned, and the fastest
  of all when none is kept.
\<close>

definition GreedyDeadlineAlgorithm_select ::
  "DeviceType \<times> real \<Rightarrow> (DeviceType \<times> real) list \<Rightarrow> real \<Rightarrow> DeviceType" where
  "GreedyDeadlineAlgorithm_select first_item other_items deadline =
     (let deadline_options = filter (\<lambda>kv. snd kv \<le> deadline) (first_item # other_items)
      in case deadline_options of
           kv # rest \<Rightarrow> min_key_from (<) kv rest
         | [] \<Rightarrow> min_key_from (<) first_item other_items)"

text \<open>
  \<^verbatim>\<open>GreedyDeadlineAlgorithm.decide\<close> (lines 225--243). With no server the edge time is
  NaN: it fails \<^verbatim>\<open>v <= task.deadline\<close>, it is never smaller than another time, and its
  entry is never the first of a dict, so it takes part in neither minimum; the
  model leaves the entry out.
\<close>

definition GreedyDeadlineAlgorithm_decide ::
  "SimulationConfig \<Rightarrow> Task \<Rightarrow> EdgeServer' list \<Rightarrow> py_error + DeviceType" where
  "GreedyDeadlineAlgorithm_decide config task servers =
     (case estimate_local_time config task of
        Inl e \<Rightarrow> Inl e
      | Inr lt \<Rightarrow>
          (case estimate_edge_time config task servers of
             Inl e \<Rightarrow> Inl e
           | Inr et \<Rightarrow>
               (case estimate_cloud_time config task of
                  Inl e \<Rightarrow> Inl e
                | Inr ct \<Rightarrow>
                    Inr (GreedyDeadlineAlgorithm_select (MOBILE, lt)
                           ((if servers = [] then [] else [(EDGE, et)]) @ [(CLOUD, ct)])
                           (deadline' task)))))"

text \<open>
  The GREEDY\_DEADLINE branch of the first script as a function of the event: the
  estimates of lines 178--194, then the decision of lines 204--206.
\<close>

definition greedy_deadline_of_event ::
  "SimConfig \<Rightarrow> int \<Rightarrow> EdgeServer list \<Rightarrow> event \<Rightarrow> py_error + DeviceType" where
  "greedy_deadline_of_event cfg num_devices servers ev =
     (case compute_estimates cfg num_devices servers ev of
        Inl e \<Rightarrow> Inl e
      | Inr est \<Rightarrow> Inr (greedy_deadline_decide est))"

section \<open>Concrete inputs\<close>

text \<open>
  The end-to-end scenario of the queue model: one server of capacity 1000 and queue
  depth 1, a task of 2000 instructions submitted at time 0, a second one at time 0.5.
\<close>

definition scenario_server :: EdgeServer where
  "scenario_server = EdgeServer_init 0 1000 1"

definition scenario_first :: "(real option \<times> bool) \<times> EdgeServer" where
  "scenario_first = submit_task scenario_server 0 (2000 / mips scenario_server)"

definition scenario_second :: "(real option \<times> bool) \<times> EdgeServer" where
  "scenario_second = submit_task (snd scenario_first) 0.5 (2000 / mips scenario_server)"

definition scenario_calls :: "server_call list" where
  "scenario_calls = [Submit 0 2, Update 0.5, Submit 0.5 2, Update 1]"

definition two_slot_server :: EdgeServer where
  "two_slot_server = EdgeServer_init 0 1000 2"

text \<open>
  A configuration with one edge server of queue depth 1 (the other fields are the
  defaults), the first application type of the table \<^verbatim>\<open>APPS\<close>, and two small tasks
  that arrive together at the end of the warm-up period.
\<close>

definition app0 :: AppType where
  "app0 = \<lparr>name = ''REALTIME_AR'', usage_pct = 35, delay_sens = 0.95, max_delay = 0.08,
            interarrival = 1.5, upload_kb = 80, download_kb = 150, task_mi = 600\<rparr>"

definition cfg1 :: SimConfig where
  "cfg1 = SimConfig_default\<lparr>num_edge_servers := 1, max_edge_queue := 1\<rparr>"

definition ev1 :: event where
  "ev1 = \<lparr>ev_t = 30, ev_device_id = 0, ev_app = app0, ev_task_len = 10,
           ev_data_size = 10, ev_deadline = 0.1\<rparr>"

definition ev2 :: event where
  "ev2 = \<lparr>ev_t = 30, ev_device_id = 1, ev_app = app0, ev_task_len = 10,
           ev_data_size = 10, ev_deadline = 0.1\<rparr>"

text \<open>The same task arriving at time 10, inside the warm-up period of 30 seconds.\<close>

definition ev_warm :: event where
  "ev_warm = ev1\<lparr>ev_t := 10\<rparr>"

text \<open>The estimates of \<open>ev1\<close> on an idle server.\<close>

definition est1 :: estimates where
  "est1 = \<lparr>local_time = 401 / 20000, wlan_delay = 1 / 625, edge_processing = 1 / 800,
            best_server_idx = 0, edge_queue_delay = 0, edge_time = 89 / 20000,
            cloud_time = 337 / 2000, local_energy = 3609 / 100000,
            edge_energy = 843 / 200000, cloud_energy = 807 / 4000\<rparr>"

definition idle_servers :: "EdgeServer list" where
  "idle_servers = [EdgeServer_init 0 8000 1]"

definition full_servers :: "EdgeServer list" where
  "full_servers = [snd (submit_task (EdgeServer_init 0 8000 1) 30 (1 / 800))]"

text \<open>A server that was busy for 27 of the first 30 seconds and is idle again.\<close>

definition busy_servers :: "EdgeServer list" where
  "busy_servers = [run_calls (EdgeServer_init 0 8000 1) [Submit 0 27, Update 30]]"

definition full_state :: sim_state where
  "full_state = (initial_state cfg1)\<lparr>edge_servers := full_servers\<rparr>"

text \<open>A stream of draws: 0.5 first, then 0.2 for ever.\<close>

definition rnd0 :: "nat \<Rightarrow> real" where
  "rnd0 n = (if n = 0 then 0.5 else 0.2)"

text \<open>The state after \<open>ev_warm\<close> has been admitted to the idle edge server at time 10.\<close>

definition admitted_state :: sim_state where
  "admitted_state =
     \<lparr>edge_servers = [\<lparr>server_id = 0, mips = 8000, max_queue = 1,
                        queued_processing_times = [1 / 800], next_available = 8001 / 800,
                        total_busy_time = 1 / 800\<rparr>],
      results = \<lparr>service_times = [89 / 20000], energies = [39621 / 10000000],
                 deadline_met = [1], failed = 0, local = 0, edge = 1, cloud = 0,
                 edge_rejected = 0\<rparr>,
      rng_pos = 3\<rparr>"

text \<open>The deadline rate and the servers at the end of a run, when the run ends.\<close>

definition deadline_rate_of :: "py_error + sim_state \<Rightarrow> py_error + real" where
  "deadline_rate_of r = (case r of Inl e \<Rightarrow> Inl e | Inr st \<Rightarrow> Inr (deadline_rate (results st)))"

definition servers_of :: "py_error + sim_state \<Rightarrow> py_error + EdgeServer list" where
  "servers_of r = (case r of Inl e \<Rightarrow> Inl e | Inr st \<Rightarrow> Inr (edge_servers st))"

text \<open>
  One task for both scripts: 100 million instructions, 937.5 KB of data, deadline 1,
  on the configuration \<open>cfg1\<close> and an unloaded edge server.
\<close>

definition ev_both :: event where
  "ev_both = \<lparr>ev_t = 30, ev_device_id = 0, ev_app = app0, ev_task_len = 100,
               ev_data_size = 937.5, ev_deadline = 1\<rparr>"

definition config_both :: SimulationConfig where
  "config_both =
     \<lparr>simulation_time' = 300, warm_up_period' = 30,
      mobile_power_idle' = 0.3, mobile_power_active' = 1.8, mobile_power_transmit' = 1.2,
      mobile_mips' = 500, edge_mips' = 8000, cloud_mips' = 20000,
      wlan_bandwidth' = 50, wan_bandwidth' = 20, wan_propagation_delay' = 0.08,
      num_edge_servers' = 1, vms_per_edge_server' = 2, alpha' = 0.6, beta' = 0.4\<rparr>"

definition task_both :: Task where
  "task_both =
     \<lparr>task_id' = 0, mobile_device_id' = 0,
      app_type' = \<lparr>name' = ''REALTIME_AR'', usage_percentage' = 30,
                   delay_sensitivity_of_app' = 0.9, max_delay_requirement' = 0.1,
                   poisson_interarrival' = 2, data_upload' = 50, data_download' = 100,
                   task_length_of_app' = 500\<rparr>,
      creation_time' = 30, task_length' = 100, input_size' = 500, output_size' = 437.5,
      deadline' = 1, delay_sensitivity' = 0.9,
      offload_decision' = None, start_time' = None, finish_time' = None,
      service_time' = None, energy_consumed' = None, deadline_met' = None,
      failed' = False\<rparr>"

definition unloaded_servers :: "EdgeServer' list" where
  "unloaded_servers = [\<lparr>server_id' = 0, current_utilization' = 0, tasks_in_queue' = 0\<rparr>]"

section \<open>Properties of the edge server\<close>

lemmas server_defs = EdgeServer_init_def submit_task_def can_accept_task_def
  estimate_wait_time_def update_def queue_inv_def get_queue_length_def Let_def

lemma foldl_plus_sum_list: "foldl (+) (a::real) xs = a + sum_list xs"
  by (induction xs arbitrary: a) simp_all

lemma length_pop_finished: "length (pop_finished na ct xs) \<le> length xs"
  by (induction xs) simp_all

lemma length_consume_elapsed: "length (consume_elapsed e xs) \<le> length xs"
proof (induction xs arbitrary: e)
  case Nil
  show ?case by simp
next
  case (Cons x xs)
  have "length (consume_elapsed (e - x) xs) \<le> Suc (length xs)"
    using Cons.IH [of "e - x"] by simp
  then show ?case by simp
qed

lemma nonneg_pop_finished:
  "\<forall>x\<in>set xs. 0 \<le> x \<Longrightarrow> \<forall>x\<in>set (pop_finished na ct xs). 0 \<le> x"
  by (induction xs) simp_all

lemma nonneg_consume_elapsed:
  "\<forall>x\<in>set xs. 0 \<le> x \<Longrightarrow> \<forall>x\<in>set (consume_elapsed e xs). 0 \<le> x"
  by (induction xs arbitrary: e) auto

lemma update_queue:
  "\<exists>e. queued_processing_times (update s now) =
         consume_elapsed e (pop_finished (next_available s) now (queued_processing_times s))"
  unfolding update_def Let_def by (simp del: consume_elapsed.simps pop_finished.simps) blast

lemma length_update:
  "length (queued_processing_times (update s now)) \<le> length (queued_processing_times s)"
proof -
  obtain e where "queued_processing_times (update s now) =
      consume_elapsed e (pop_finished (next_available s) now (queued_processing_times s))"
    using update_queue by blast
  then show ?thesis
    using length_consume_elapsed [of e "pop_finished (next_available s) now (queued_processing_times s)"]
          length_pop_finished [of "next_available s" now "queued_processing_times s"]
    by simp
qed

lemma update_frame:
  "max_queue (update s now) = max_queue s \<and> next_available (update s now) = next_available s
   \<and> total_busy_time (update s now) = total_busy_time s \<and> server_id (update s now) = server_id s
   \<and> mips (update s now) = mips s"
  by (simp add: update_def Let_def)

lemma queue_inv_update: "queue_inv s \<Longrightarrow> queue_inv (update s now)"
  using length_update [of s now] by (simp add: queue_inv_def update_frame)

lemma queue_inv_submit: "queue_inv s \<Longrightarrow> queue_inv (snd (submit_task s now pt))"
  by (simp add: queue_inv_def submit_task_def can_accept_task_def Let_def)

lemma queue_inv_init: "0 \<le> mq \<Longrightarrow> queue_inv (EdgeServer_init sid m mq)"
  by (simp add: queue_inv_def EdgeServer_init_def)

lemma queue_inv_apply_call: "queue_inv s \<Longrightarrow> queue_inv (apply_call s c)"
  by (cases c) (simp_all add: queue_inv_submit queue_inv_update)

lemma queue_inv_run_calls: "queue_inv s \<Longrightarrow> queue_inv (run_calls s cs)"
  unfolding run_calls_def
  by (induction cs arbitrary: s) (simp_all add: queue_inv_apply_call)

lemma queue_nonneg_update: "queue_nonneg s \<Longrightarrow> queue_nonneg (update s now)"
proof -
  assume a: "queue_nonneg s"
  obtain e where q: "queued_processing_times (update s now) =
      consume_elapsed e (pop_finished (next_available s) now (queued_processing_times s))"
    using update_queue by blast
  have "\<forall>x\<in>set (pop_finished (next_available s) now (queued_processing_times s)). 0 \<le> x"
    using a unfolding queue_nonneg_def by (rule nonneg_pop_finished)
  then have "\<forall>x\<in>set (consume_elapsed e
      (pop_finished (next_available s) now (queued_processing_times s))). 0 \<le> x"
    by (rule nonneg_consume_elapsed)
  then show ?thesis unfolding queue_nonneg_def q .
qed

lemma queue_nonneg_submit:
  "queue_nonneg s \<Longrightarrow> 0 \<le> pt \<Longrightarrow> queue_nonneg (snd (submit_task s now pt))"
  by (auto simp add: queue_nonneg_def submit_task_def Let_def)

lemma queue_nonneg_apply_call:
  "queue_nonneg s \<Longrightarrow> nonneg_call c \<Longrightarrow> queue_nonneg (apply_call s c)"
  by (cases c) (simp_all add: queue_nonneg_submit queue_nonneg_update)

lemma queue_nonneg_run_calls:
  "queue_nonneg s \<Longrightarrow> \<forall>c\<in>set cs. nonneg_call c \<Longrightarrow> queue_nonneg (run_calls s cs)"
  unfolding run_calls_def
  by (induction cs arbitrary: s) (simp_all add: queue_nonneg_apply_call)

lemma queue_nonneg_init: "queue_nonneg (EdgeServer_init sid m mq)"
  by (simp add: queue_nonneg_def EdgeServer_init_def)

lemma estimate_wait_after_submit:
  assumes "can_accept_task s"
  shows "estimate_wait_time (snd (submit_task s now pt)) now =
         max 0 (estimate_wait_time s now + pt) + sum_list (queued_processing_times s) + pt"
  using assms
  by (simp add: submit_task_def estimate_wait_time_def Let_def foldl_plus_sum_list)

lemma estimate_wait_mono_step:
  assumes "queue_nonneg s" "0 \<le> pt" "can_accept_task s"
  shows "estimate_wait_time s now \<le> estimate_wait_time (snd (submit_task s now pt)) now"
proof -
  have "0 \<le> sum_list (queued_processing_times s)"
    using assms(1) by (simp add: queue_nonneg_def sum_list_nonneg)
  then show ?thesis
    using assms(2) by (simp add: estimate_wait_after_submit [OF assms(3)] max_def)
qed

text \<open>
  Claim C3. A call of \<^verbatim>\<open>submit_task\<close> signals rejection (the flag is true, the time is
  \<^verbatim>\<open>None\<close>) exactly when \<^verbatim>\<open>can_accept_task\<close> is false; in a state of the data model,
  where the queue holds at most \<open>max_queue\<close> entries, \<^verbatim>\<open>can_accept_task\<close> is false exactly
  when the queue length equals \<open>max_queue\<close>; and a rejected call returns the server as
  it was, every field unchanged.
\<close>

theorem submit_rejects_iff_full:
  "(snd (fst (submit_task s now pt)) \<longleftrightarrow> \<not> can_accept_task s)
   \<and> (fst (fst (submit_task s now pt)) = None \<longleftrightarrow> \<not> can_accept_task s)
   \<and> (queue_inv s \<longrightarrow> (\<not> can_accept_task s \<longleftrightarrow> get_queue_length s = max_queue s))
   \<and> (\<not> can_accept_task s \<longrightarrow> submit_task s now pt = ((None, True), s))"
  by (auto simp add: submit_task_def can_accept_task_def queue_inv_def get_queue_length_def Let_def)

theorem submit_rejects_iff_full_witness:
  "queue_inv (snd scenario_first) \<and> \<not> can_accept_task (snd scenario_first)
   \<and> get_queue_length (snd scenario_first) = max_queue (snd scenario_first)
   \<and> submit_task (snd scenario_first) 0.5 2 = ((None, True), snd scenario_first)
   \<and> queue_inv scenario_server \<and> can_accept_task scenario_server
   \<and> get_queue_length scenario_server \<noteq> max_queue scenario_server
   \<and> \<not> snd (fst (submit_task scenario_server 0 2))"
proof -
  have inv1: "queue_inv (snd scenario_first)"
    by (simp add: scenario_first_def scenario_server_def server_defs)
  have full: "\<not> can_accept_task (snd scenario_first)"
    by (simp add: scenario_first_def scenario_server_def server_defs)
  have inv0: "queue_inv scenario_server"
    by (simp add: scenario_server_def server_defs)
  have free: "can_accept_task scenario_server"
    by (simp add: scenario_server_def server_defs)
  show ?thesis
    using submit_rejects_iff_full [of "snd scenario_first" "0.5" 2]
          submit_rejects_iff_full [of scenario_server 0 2] inv1 full inv0 free
    by simp
qed

text \<open>
  Claim C4. The scenario on the code: the first submit returns 2 and sets
  \<open>next_available\<close> to 2, and the second submit, at time 0.5, is rejected and leaves the
  server as it was. Then \<^verbatim>\<open>estimate_wait_time(1.0)\<close> returns 3, not the 1 second that
  remains of the first task: the 1 second until \<open>next_available\<close> plus the 2 seconds
  still in the queue, which \<open>next_available\<close> already contains. With the queue advanced
  to time 1 by \<^verbatim>\<open>update\<close> first, as the loop does before every decision, it returns 2.
\<close>

theorem scenario_estimate_wait:
  "fst scenario_first = (Some 2, False)
   \<and> next_available (snd scenario_first) = 2
   \<and> queued_processing_times (snd scenario_first) = [2]
   \<and> scenario_second = ((None, True), snd scenario_first)
   \<and> estimate_wait_time (snd scenario_second) 1 = 3
   \<and> estimate_wait_time (update (snd scenario_second) 1) 1 = 2
   \<and> estimate_wait_time (update (update (snd scenario_first) 0.5) 1) 1 = 2"
  by (simp add: scenario_first_def scenario_second_def scenario_server_def server_defs)

text \<open>
  Claim C5. The invariant \<open>queue length \<le> max_queue\<close> holds in the freshly initialised
  state of a server whose maximum queue depth is not negative, and \<^verbatim>\<open>submit_task\<close> and
  \<^verbatim>\<open>update\<close> preserve it for all arguments; the other methods do not change the state.
  Hence it holds after every history of calls on such a server.
\<close>

theorem queue_inv_preserved:
  "(0 \<le> mq \<longrightarrow> queue_inv (EdgeServer_init sid m mq))
   \<and> (queue_inv s \<longrightarrow> queue_inv (snd (submit_task s now pt)))
   \<and> (queue_inv s \<longrightarrow> queue_inv (update s now))
   \<and> (0 \<le> mq \<longrightarrow> queue_inv (run_calls (EdgeServer_init sid m mq) cs))"
  by (simp add: queue_inv_init queue_inv_submit queue_inv_update queue_inv_run_calls)

theorem queue_inv_preserved_witness:
  "(0::int) \<le> 1 \<and> queue_inv scenario_server
   \<and> queue_inv (snd (submit_task scenario_server 0 2))
   \<and> queue_inv (update scenario_server 1)
   \<and> queue_inv (run_calls scenario_server scenario_calls)
   \<and> length (queued_processing_times (run_calls scenario_server scenario_calls)) = 1"
proof -
  have le: "(0::int) \<le> 1" by simp
  have len: "length (queued_processing_times (run_calls scenario_server scenario_calls)) = 1"
    by (simp add: run_calls_def scenario_calls_def scenario_server_def server_defs)
  show ?thesis
    using queue_inv_preserved [of 1 0 1000 scenario_server 0 2 scenario_calls]
          queue_inv_preserved [of 1 0 1000 scenario_server 1 2 scenario_calls] le len
    by (simp add: scenario_server_def)
qed

text \<open>
  Claim C7. On a server whose history holds only submits of non-negative processing
  times (and updates), a successful \<^verbatim>\<open>submit_task(now, processing_time)\<close> with a
  non-negative processing time does not lower \<^verbatim>\<open>estimate_wait_time(now)\<close>.
\<close>

theorem estimate_wait_monotone:
  assumes "\<forall>c\<in>set cs. nonneg_call c"
    and "s = run_calls (EdgeServer_init sid m mq) cs"
    and "0 \<le> pt"
    and "submit_task s now pt = ((Some total_time, False), s')"
  shows "estimate_wait_time s now \<le> estimate_wait_time s' now"
proof -
  have acc: "can_accept_task s"
    using assms(4) by (auto simp add: submit_task_def split: if_splits)
  have "queue_nonneg s"
    using assms(1,2) by (simp add: queue_nonneg_run_calls queue_nonneg_init)
  then have "estimate_wait_time s now \<le> estimate_wait_time (snd (submit_task s now pt)) now"
    using assms(3) acc by (rule estimate_wait_mono_step)
  then show ?thesis using assms(4) by simp
qed

theorem estimate_wait_monotone_witness:
  "list_all nonneg_call [Submit 0 2, Update 1]
   \<and> (0::real) \<le> 3
   \<and> submit_task (run_calls two_slot_server [Submit 0 2, Update 1]) 1 3
       = ((Some 5, False),
          snd (submit_task (run_calls two_slot_server [Submit 0 2, Update 1]) 1 3))
   \<and> estimate_wait_time (run_calls two_slot_server [Submit 0 2, Update 1]) 1 = 2
   \<and> estimate_wait_time (snd (submit_task (run_calls two_slot_server [Submit 0 2, Update 1]) 1 3)) 1 = 9
   \<and> estimate_wait_time (run_calls two_slot_server [Submit 0 2, Update 1]) 1
       \<le> estimate_wait_time (snd (submit_task (run_calls two_slot_server [Submit 0 2, Update 1]) 1 3)) 1"
proof -
  let ?s = "run_calls two_slot_server [Submit 0 2, Update 1]"
  have h1: "\<forall>c\<in>set [Submit 0 2, Update 1]. nonneg_call c" by simp
  have h2: "?s = run_calls (EdgeServer_init 0 1000 2) [Submit 0 2, Update 1]"
    by (simp add: two_slot_server_def)
  have h3: "(0::real) \<le> 3" by simp
  have h4: "submit_task ?s 1 3 = ((Some 5, False), snd (submit_task ?s 1 3))"
    by (simp add: run_calls_def two_slot_server_def server_defs)
  have v1: "estimate_wait_time ?s 1 = 2"
    by (simp add: run_calls_def two_slot_server_def server_defs)
  have v2: "estimate_wait_time (snd (submit_task ?s 1 3)) 1 = 9"
    by (simp add: run_calls_def two_slot_server_def server_defs)
  show ?thesis
    using estimate_wait_monotone [OF h1 h2 h3 h4] h1 h3 h4 v1 v2 by simp
qed

section \<open>Properties of the decision policies\<close>

text \<open>
  The estimates are computed, and the best server is one of the servers, whenever the
  divisors of the configuration are not zero and there is at least one server; every
  policy name other than the four baselines runs the EADC branch, which leaves the
  state alone.
\<close>

lemma min_key_from_mem: "min_key_from lt best kvs \<in> fst ` set (best # kvs)"
  by (induction kvs arbitrary: best) (auto split: if_splits)

lemma compute_estimates_succeeds:
  assumes "mobile_mips cfg \<noteq> 0" "wlan_bandwidth cfg \<noteq> 0" "edge_mips cfg \<noteq> 0"
    and "wan_bandwidth cfg \<noteq> 0" "cloud_mips cfg \<noteq> 0"
    and "0 < num_edge_servers cfg" and "length servers = nat (num_edge_servers cfg)"
  shows "\<exists>est. compute_estimates cfg num_devices servers ev = Inr est
           \<and> best_server_idx est < length servers"
proof -
  let ?wait = "\<lambda>i. estimate_wait_time (servers ! i) (ev_t ev)"
  let ?n = "nat (num_edge_servers cfg)"
  let ?best = "min_key_from (<) (0, ?wait 0) (map (\<lambda>i. (i, ?wait i)) [1..<?n])"
  have "?best \<in> fst ` set ((0, ?wait 0) # map (\<lambda>i. (i, ?wait i)) [1..<?n])"
    by (rule min_key_from_mem)
  then have "?best = 0 \<or> ?best \<in> {1..<?n}"
    by (auto simp add: image_iff)
  moreover have "0 < ?n" using assms(6) by simp
  ultimately have b: "?best < length servers" using assms(7) by auto
  show ?thesis
    using assms b by (simp add: compute_estimates_def Let_def)
qed

lemma decide_EADC:
  "decide rnd ''EADC'' cfg ev st est
     = (eadc_decide cfg (ev_app ev) (ev_deadline ev) (ev_t ev) (edge_servers st) est, st)"
  by (simp add: decide_def)

lemma min_of_three_minimal: "\<not> score_less (score_at d x) (score_at d (min_of_three d))"
proof -
  obtain l e c where d: "d = (l, e, c)" by (cases d) auto
  show ?thesis
    unfolding d min_of_three_def
    by (cases l; cases e; cases c; cases x) auto
qed

lemma min_of_three_PInf:
  assumes "score_at d (min_of_three d) = PInf"
  shows "score_at d x = PInf"
proof (cases "score_at d x")
  case (Fin a)
  then have "score_less (score_at d x) (score_at d (min_of_three d))"
    using assms by simp
  then show ?thesis using min_of_three_minimal by blast
next
  case PInf
  then show ?thesis .
qed

lemma fallback_full:
  assumes "\<not> can_accept_task (servers ! best_server_idx est)"
  shows "min_of_three (fallback_times servers est) \<noteq> EDGE
       \<and> time_at est (min_of_three (fallback_times servers est)) \<le> local_time est
       \<and> time_at est (min_of_three (fallback_times servers est)) \<le> cloud_time est"
  using assms by (simp add: fallback_times_def min_of_three_def)

lemma fallback_free:
  assumes "can_accept_task (servers ! best_server_idx est)"
  shows "time_at est (min_of_three (fallback_times servers est)) \<le> time_at est x"
  using assms by (cases x) (simp_all add: fallback_times_def min_of_three_def)

text \<open>
  Claim C1. For a non-empty list of servers, the EADC branch returns one of the three
  locations; the location it returns has an infinite score only if all three scores are
  infinite; and in that case it is a location of minimum estimated time among the
  three, or among Local and Cloud alone (and it is not Edge) when the best edge server
  cannot accept a task.
\<close>

theorem eadc_decide_feasible:
  assumes "servers \<noteq> []" and "best_server_idx est < length servers"
  shows "(eadc_decide cfg app deadline t servers est = MOBILE
          \<or> eadc_decide cfg app deadline t servers est = EDGE
          \<or> eadc_decide cfg app deadline t servers est = CLOUD)
       \<and> (score_at (eadc_scores cfg app deadline t servers est)
             (eadc_decide cfg app deadline t servers est) = PInf
           \<longrightarrow> (\<forall>x. score_at (eadc_scores cfg app deadline t servers est) x = PInf))
       \<and> ((\<forall>x. score_at (eadc_scores cfg app deadline t servers est) x = PInf)
           \<longrightarrow> (if can_accept_task (servers ! best_server_idx est)
                then \<forall>x. time_at est (eadc_decide cfg app deadline t servers est)
                           \<le> time_at est x
                else eadc_decide cfg app deadline t servers est \<noteq> EDGE
                   \<and> time_at est (eadc_decide cfg app deadline t servers est)
                       \<le> local_time est
                   \<and> time_at est (eadc_decide cfg app deadline t servers est)
                       \<le> cloud_time est))"
proof -
  define sc where "sc = eadc_scores cfg app deadline t servers est"
  define d where "d = eadc_decide cfg app deadline t servers est"
  define fb where "fb = min_of_three (fallback_times servers est)"
  have d_eq: "d = (if score_at sc (min_of_three sc) = PInf then fb else min_of_three sc)"
    unfolding d_def sc_def fb_def eadc_decide_def Let_def by (rule refl)
  have one: "d = MOBILE \<or> d = EDGE \<or> d = CLOUD"
    by (cases d) simp_all
  have inf: "score_at sc d = PInf \<longrightarrow> (\<forall>x. score_at sc x = PInf)"
  proof (cases "score_at sc (min_of_three sc) = PInf")
    case True
    then show ?thesis using min_of_three_PInf by blast
  next
    case False
    then have "d = min_of_three sc" using d_eq by simp
    then show ?thesis using False by simp
  qed
  have fbk: "(\<forall>x. score_at sc x = PInf) \<longrightarrow>
        (if can_accept_task (servers ! best_server_idx est)
         then \<forall>x. time_at est d \<le> time_at est x
         else d \<noteq> EDGE \<and> time_at est d \<le> local_time est
              \<and> time_at est d \<le> cloud_time est)"
  proof
    assume all: "\<forall>x. score_at sc x = PInf"
    then have dfb: "d = fb" using d_eq by simp
    show "if can_accept_task (servers ! best_server_idx est)
         then \<forall>x. time_at est d \<le> time_at est x
         else d \<noteq> EDGE \<and> time_at est d \<le> local_time est
              \<and> time_at est d \<le> cloud_time est"
    proof (cases "can_accept_task (servers ! best_server_idx est)")
      case True
      then have "\<forall>x. time_at est fb \<le> time_at est x"
        unfolding fb_def using fallback_free by blast
      then show ?thesis using True dfb by simp
    next
      case False
      then have "fb \<noteq> EDGE \<and> time_at est fb \<le> local_time est
                 \<and> time_at est fb \<le> cloud_time est"
        unfolding fb_def by (rule fallback_full)
      then show ?thesis using False dfb by simp
    qed
  qed
  show ?thesis
    using one inf fbk unfolding sc_def d_def by blast
qed

lemma greedy_deadline_minimal: "time_at est (greedy_deadline_decide est) \<le> time_at est x"
  by (cases x) (simp_all add: greedy_deadline_decide_def)

lemmas eval_defs = eadc_decide_def eadc_scores_def calc_score_def avg_util_def mean_def
  get_utilization_def can_accept_task_def EdgeServer_init_def min_of_three_def
  fallback_times_def est1_def cfg1_def SimConfig_default_def app0_def idle_servers_def
  full_servers_def submit_task_def Let_def

lemma full_cannot_accept: "\<not> can_accept_task (full_servers ! best_server_idx est1)"
  by (simp add: full_servers_def est1_def can_accept_task_def submit_task_def
      EdgeServer_init_def Let_def)

lemma idle_can_accept: "can_accept_task (idle_servers ! best_server_idx est1)"
  by (simp add: idle_servers_def est1_def can_accept_task_def EdgeServer_init_def)

lemma scores_full_tight:
  "eadc_scores cfg1 app0 (1 / 1000) 30 full_servers est1 = (PInf, PInf, PInf)"
  by (simp add: eval_defs)

lemma scores_idle_tight:
  "eadc_scores cfg1 app0 (1 / 1000) 30 idle_servers est1 = (PInf, PInf, PInf)"
  by (simp add: eval_defs)

lemma decide_full_tight: "eadc_decide cfg1 app0 (1 / 1000) 30 full_servers est1 = MOBILE"
  by (simp add: eval_defs)

lemma decide_idle_tight: "eadc_decide cfg1 app0 (1 / 1000) 30 idle_servers est1 = EDGE"
  by (simp add: eval_defs)

lemma decide_idle_loose: "eadc_decide cfg1 app0 (1 / 10) 30 idle_servers est1 = EDGE"
  by (simp add: eval_defs)

lemma score_idle_loose:
  "score_at (eadc_scores cfg1 app0 (1 / 10) 30 idle_servers est1) EDGE
     = Fin (133022267 / 4532650000)"
  by (simp add: eval_defs)

theorem eadc_decide_feasible_witness:
  "idle_servers \<noteq> [] \<and> full_servers \<noteq> []
   \<and> best_server_idx est1 < length idle_servers
   \<and> best_server_idx est1 < length full_servers
   \<and> eadc_scores cfg1 app0 (1 / 1000) 30 full_servers est1 = (PInf, PInf, PInf)
   \<and> \<not> can_accept_task (full_servers ! best_server_idx est1)
   \<and> eadc_decide cfg1 app0 (1 / 1000) 30 full_servers est1 = MOBILE
   \<and> time_at est1 MOBILE \<le> cloud_time est1
   \<and> eadc_scores cfg1 app0 (1 / 1000) 30 idle_servers est1 = (PInf, PInf, PInf)
   \<and> can_accept_task (idle_servers ! best_server_idx est1)
   \<and> eadc_decide cfg1 app0 (1 / 1000) 30 idle_servers est1 = EDGE
   \<and> time_at est1 EDGE \<le> time_at est1 MOBILE
   \<and> eadc_decide cfg1 app0 (1 / 10) 30 idle_servers est1 = EDGE
   \<and> score_at (eadc_scores cfg1 app0 (1 / 10) 30 idle_servers est1) EDGE \<noteq> PInf"
proof -
  have i1: "idle_servers \<noteq> []" and f1: "full_servers \<noteq> []"
    by (simp_all add: idle_servers_def full_servers_def)
  have i2: "best_server_idx est1 < length idle_servers"
    and f2: "best_server_idx est1 < length full_servers"
    by (simp_all add: idle_servers_def full_servers_def est1_def)
  have allf: "\<forall>x. score_at (eadc_scores cfg1 app0 (1 / 1000) 30 full_servers est1) x = PInf"
  proof
    fix x show "score_at (eadc_scores cfg1 app0 (1 / 1000) 30 full_servers est1) x = PInf"
      unfolding scores_full_tight by (cases x) simp_all
  qed
  have alli: "\<forall>x. score_at (eadc_scores cfg1 app0 (1 / 1000) 30 idle_servers est1) x = PInf"
  proof
    fix x show "score_at (eadc_scores cfg1 app0 (1 / 1000) 30 idle_servers est1) x = PInf"
      unfolding scores_idle_tight by (cases x) simp_all
  qed
  have w1: "time_at est1 (eadc_decide cfg1 app0 (1 / 1000) 30 full_servers est1)
              \<le> cloud_time est1"
    using eadc_decide_feasible [OF f1 f2, of cfg1 app0 "1 / 1000" 30] allf full_cannot_accept
    by simp
  have "\<forall>x. time_at est1 (eadc_decide cfg1 app0 (1 / 1000) 30 idle_servers est1)
              \<le> time_at est1 x"
    using eadc_decide_feasible [OF i1 i2, of cfg1 app0 "1 / 1000" 30] alli idle_can_accept
    by simp
  then have w2: "time_at est1 (eadc_decide cfg1 app0 (1 / 1000) 30 idle_servers est1)
              \<le> time_at est1 MOBILE"
    by (rule spec)
  have w3: "score_at (eadc_scores cfg1 app0 (1 / 10) 30 idle_servers est1) EDGE \<noteq> PInf"
    unfolding score_idle_loose by simp
  show ?thesis
    using i1 f1 i2 f2 scores_full_tight full_cannot_accept decide_full_tight
      w1 [unfolded decide_full_tight] scores_idle_tight idle_can_accept decide_idle_tight
      w2 [unfolded decide_idle_tight] decide_idle_loose w3
    by (intro conjI)
qed

lemma select_three:
  "GreedyDeadlineAlgorithm_select (MOBILE, a) [(EDGE, b), (CLOUD, c)] deadline
     = min_key_from (<) (MOBILE, a) [(EDGE, b), (CLOUD, c)]"
  by (simp add: GreedyDeadlineAlgorithm_select_def Let_def)

lemma min_three_minimal:
  "(case min_key_from (<) (MOBILE, a) [(EDGE, b), (CLOUD, c)] of
      MOBILE \<Rightarrow> a | EDGE \<Rightarrow> b | CLOUD \<Rightarrow> c) \<le> min a (min b (c::real))"
  by simp

lemma GreedyDeadlineAlgorithm_decide_three:
  assumes "servers \<noteq> []"
    and "estimate_local_time config task = Inr lt"
    and "estimate_edge_time config task servers = Inr et"
    and "estimate_cloud_time config task = Inr ct"
  shows "GreedyDeadlineAlgorithm_decide config task servers
           = Inr (min_key_from (<) (MOBILE, lt) [(EDGE, et), (CLOUD, ct)])"
  using assms by (simp add: GreedyDeadlineAlgorithm_decide_def select_three)

text \<open>
  Claim C9 as stated does not hold: the two implementations estimate the times with
  different formulas. For one task, one configuration and an unloaded edge server the
  branch of the first script returns Local (0.2005 against 0.3125 for Edge, with the
  load factor and the round trip), and \<^verbatim>\<open>GreedyDeadlineAlgorithm.decide\<close> returns Edge
  (0.1625 against 0.2 for Local, one way and no load factor).
\<close>

theorem greedy_deadline_implementations_counterexample:
  "ev_task_len ev_both = task_length' task_both
   \<and> ev_data_size ev_both = input_size' task_both + output_size' task_both
   \<and> ev_deadline ev_both = deadline' task_both
   \<and> mobile_mips cfg1 = mobile_mips' config_both
   \<and> edge_mips cfg1 = edge_mips' config_both
   \<and> cloud_mips cfg1 = cloud_mips' config_both
   \<and> wlan_bandwidth cfg1 = wlan_bandwidth' config_both
   \<and> wan_bandwidth cfg1 = wan_bandwidth' config_both
   \<and> wan_propagation_delay cfg1 = wan_propagation_delay' config_both
   \<and> greedy_deadline_of_event cfg1 1 idle_servers ev_both = Inr MOBILE
   \<and> GreedyDeadlineAlgorithm_decide config_both task_both unloaded_servers = Inr EDGE"
proof -
  have same: "ev_task_len ev_both = task_length' task_both
   \<and> ev_data_size ev_both = input_size' task_both + output_size' task_both
   \<and> ev_deadline ev_both = deadline' task_both
   \<and> mobile_mips cfg1 = mobile_mips' config_both
   \<and> edge_mips cfg1 = edge_mips' config_both
   \<and> cloud_mips cfg1 = cloud_mips' config_both
   \<and> wlan_bandwidth cfg1 = wlan_bandwidth' config_both
   \<and> wan_bandwidth cfg1 = wan_bandwidth' config_both
   \<and> wan_propagation_delay cfg1 = wan_propagation_delay' config_both"
    by (simp add: ev_both_def task_both_def cfg1_def SimConfig_default_def config_both_def)
  have q: "greedy_deadline_of_event cfg1 1 idle_servers ev_both = Inr MOBILE"
    by (simp add: greedy_deadline_of_event_def compute_estimates_def greedy_deadline_decide_def
        cfg1_def SimConfig_default_def idle_servers_def ev_both_def Let_def load_factor_def
        estimate_wait_time_def EdgeServer_init_def)
  have e: "GreedyDeadlineAlgorithm_decide config_both task_both unloaded_servers = Inr EDGE"
    by (simp add: GreedyDeadlineAlgorithm_decide_def GreedyDeadlineAlgorithm_select_def
        estimate_local_time_def estimate_edge_time_def estimate_cloud_time_def mean_def
        config_both_def task_both_def unloaded_servers_def Let_def)
  show ?thesis using same q e by simp
qed

text \<open>
  Claim C9, amended. On the same three estimated times the selection that first keeps
  the locations meeting the deadline (and falls back to all three when none does)
  returns the same location as the one that takes the minimum directly, and that
  location has minimum estimated time among the three. Each implementation applies its
  selection to its own estimates: \<^verbatim>\<open>GreedyDeadlineAlgorithm.decide\<close>, for a non-empty
  server list, returns the direct minimum over the times of its three estimators.
\<close>

theorem greedy_deadline_selections_agree:
  "GreedyDeadlineAlgorithm_select (MOBILE, local_time est)
       [(EDGE, edge_time est), (CLOUD, cloud_time est)] deadline
     = greedy_deadline_decide est
   \<and> (\<forall>x. time_at est (greedy_deadline_decide est) \<le> time_at est x)
   \<and> (servers \<noteq> [] \<and> estimate_local_time config task = Inr lt
        \<and> estimate_edge_time config task servers = Inr et
        \<and> estimate_cloud_time config task = Inr ct
      \<longrightarrow> GreedyDeadlineAlgorithm_decide config task servers
            = Inr (min_key_from (<) (MOBILE, lt) [(EDGE, et), (CLOUD, ct)])
          \<and> (case min_key_from (<) (MOBILE, lt) [(EDGE, et), (CLOUD, ct)] of
                MOBILE \<Rightarrow> lt | EDGE \<Rightarrow> et | CLOUD \<Rightarrow> ct) \<le> min lt (min et ct))"
proof -
  have a: "GreedyDeadlineAlgorithm_select (MOBILE, local_time est)
       [(EDGE, edge_time est), (CLOUD, cloud_time est)] deadline
     = greedy_deadline_decide est"
    unfolding select_three greedy_deadline_decide_def by (rule refl)
  have b: "\<forall>x. time_at est (greedy_deadline_decide est) \<le> time_at est x"
    using greedy_deadline_minimal by blast
  have c: "servers \<noteq> [] \<and> estimate_local_time config task = Inr lt
        \<and> estimate_edge_time config task servers = Inr et
        \<and> estimate_cloud_time config task = Inr ct
      \<longrightarrow> GreedyDeadlineAlgorithm_decide config task servers
            = Inr (min_key_from (<) (MOBILE, lt) [(EDGE, et), (CLOUD, ct)])
          \<and> (case min_key_from (<) (MOBILE, lt) [(EDGE, et), (CLOUD, ct)] of
                MOBILE \<Rightarrow> lt | EDGE \<Rightarrow> et | CLOUD \<Rightarrow> ct) \<le> min lt (min et ct)"
    using GreedyDeadlineAlgorithm_decide_three min_three_minimal by blast
  show ?thesis using a b c by (intro conjI)
qed

theorem greedy_deadline_selections_agree_witness:
  "unloaded_servers \<noteq> []
   \<and> estimate_local_time config_both task_both = Inr (1 / 5)
   \<and> estimate_edge_time config_both task_both unloaded_servers = Inr (13 / 80)
   \<and> estimate_cloud_time config_both task_both = Inr (27 / 50)
   \<and> GreedyDeadlineAlgorithm_decide config_both task_both unloaded_servers = Inr EDGE
   \<and> (13 / 80 :: real) \<le> min (1 / 5) (min (13 / 80) (27 / 50))"
proof -
  have h1: "unloaded_servers \<noteq> []" by (simp add: unloaded_servers_def)
  have h2: "estimate_local_time config_both task_both = Inr (1 / 5)"
    by (simp add: estimate_local_time_def config_both_def task_both_def)
  have h3: "estimate_edge_time config_both task_both unloaded_servers = Inr (13 / 80)"
    by (simp add: estimate_edge_time_def mean_def config_both_def task_both_def
        unloaded_servers_def Let_def)
  have h4: "estimate_cloud_time config_both task_both = Inr (27 / 50)"
    by (simp add: estimate_cloud_time_def config_both_def task_both_def Let_def)
  have m: "min_key_from (<) (MOBILE, 1 / 5 :: real) [(EDGE, 13 / 80), (CLOUD, 27 / 50)] = EDGE"
    by simp
  have "GreedyDeadlineAlgorithm_decide config_both task_both unloaded_servers
            = Inr (min_key_from (<) (MOBILE, 1 / 5 :: real) [(EDGE, 13 / 80), (CLOUD, 27 / 50)])
          \<and> (case min_key_from (<) (MOBILE, 1 / 5 :: real) [(EDGE, 13 / 80), (CLOUD, 27 / 50)] of
                MOBILE \<Rightarrow> 1 / 5 | EDGE \<Rightarrow> 13 / 80 | CLOUD \<Rightarrow> 27 / 50)
              \<le> min (1 / 5 :: real) (min (13 / 80) (27 / 50))"
    using greedy_deadline_selections_agree
            [of _ _ unloaded_servers config_both task_both "1 / 5" "13 / 80" "27 / 50"]
          h1 h2 h3 h4
    by blast
  then have w: "GreedyDeadlineAlgorithm_decide config_both task_both unloaded_servers = Inr EDGE
      \<and> (13 / 80 :: real) \<le> min (1 / 5) (min (13 / 80) (27 / 50))"
    unfolding m by simp
  show ?thesis using h1 h2 h3 h4 w by (intro conjI) simp_all
qed

section \<open>The EADC scores\<close>

text \<open>
  Claim C2. Where the two normalisers are positive, the three EADC scores are the
  weighted sums \<open>\<alpha>' * time / time_norm + \<beta>' * energy / energy_norm\<close> with
  \<open>\<alpha>' = \<alpha> (1 + 0.5 s)\<close> and \<open>\<beta>' = \<beta> (1 - 0.3 s)\<close>, the normalisers being the maximum
  of the three times and the deadline, and of the three energies; a location whose
  time exceeds the deadline scores infinity; the edge score is multiplied by
  \<open>1 + (utilization - 70) / 50\<close> when the mean utilization of the servers exceeds 70,
  and is infinity when the best edge server cannot accept the task.
\<close>

theorem eadc_scores_formula:
  assumes "servers \<noteq> []"
    and "0 < Max {local_time est, edge_time est, cloud_time est, deadline}"
    and "0 < Max {local_energy est, edge_energy est, cloud_energy est}"
  shows "eadc_scores cfg app deadline t servers est =
     (let s = delay_sens app;
          a = alpha cfg * (1 + 0.5 * s);
          b = beta cfg * (1 - 0.3 * s);
          time_norm = Max {local_time est, edge_time est, cloud_time est, deadline};
          energy_norm = Max {local_energy est, edge_energy est, cloud_energy est};
          utilization = sum_list (map (\<lambda>srv. get_utilization srv t) servers)
                          / real (length servers);
          weighted = (\<lambda>time energy.
             if time > deadline then PInf
             else Fin (a * (time / time_norm) + b * (energy / energy_norm)))
      in (weighted (local_time est) (local_energy est),
          (if \<not> can_accept_task (servers ! best_server_idx est) then PInf
           else if utilization > 70
             then (case weighted (edge_time est) (edge_energy est) of
                     Fin x \<Rightarrow> Fin (x * (1 + (utilization - 70) / 50))
                   | PInf \<Rightarrow> PInf)
             else weighted (edge_time est) (edge_energy est)),
          weighted (cloud_time est) (cloud_energy est)))"
proof -
  define tn where "tn = max (local_time est) (max (edge_time est) (max (cloud_time est) deadline))"
  define en where "en = max (local_energy est) (max (edge_energy est) (cloud_energy est))"
  define a where "a = alpha cfg * (1 + delay_sens app * 0.5)"
  define b where "b = beta cfg * (1 - delay_sens app * 0.3)"
  define u where "u = sum_list (map (\<lambda>srv. get_utilization srv t) servers) / real (length servers)"
  have tn: "Max {local_time est, edge_time est, cloud_time est, deadline} = tn"
    unfolding tn_def by simp
  have en: "Max {local_energy est, edge_energy est, cloud_energy est} = en"
    unfolding en_def by simp
  have tpos: "0 < tn" using assms(2) unfolding tn .
  have epos: "0 < en" using assms(3) unfolding en .
  have a': "alpha cfg * (1 + 0.5 * delay_sens app) = a"
    unfolding a_def by (simp add: mult.commute)
  have b': "beta cfg * (1 - 0.3 * delay_sens app) = b"
    unfolding b_def by (simp add: mult.commute)
  have um: "mean (map (\<lambda>s. get_utilization s t) servers) = u"
    unfolding mean_def u_def by simp
  have cs: "calc_score a b tn en time energy (time \<le> deadline) =
        (if time > deadline then PInf else Fin (a * (time / tn) + b * (energy / en)))"
    for time energy
    using tpos epos by (simp add: calc_score_def Let_def not_le)
  have lhs: "eadc_scores cfg app deadline t servers est =
      (calc_score a b tn en (local_time est) (local_energy est) (local_time est \<le> deadline),
       (if \<not> can_accept_task (servers ! best_server_idx est) then PInf
        else if u > 70
          then (case calc_score a b tn en (edge_time est) (edge_energy est)
                       (edge_time est \<le> deadline) of
                  Fin x \<Rightarrow> Fin (x * (1 + (u - 70) / 50))
                | PInf \<Rightarrow> PInf)
          else calc_score a b tn en (edge_time est) (edge_energy est)
                 (edge_time est \<le> deadline)),
       calc_score a b tn en (cloud_time est) (cloud_energy est) (cloud_time est \<le> deadline))"
    unfolding eadc_scores_def Let_def avg_util_def um
      tn_def [symmetric] en_def [symmetric] a_def [symmetric] b_def [symmetric]
    by (rule refl)
  show ?thesis
    unfolding lhs cs Let_def tn en a' b' u_def [symmetric] by (rule refl)
qed

text \<open>
  The normalisers are positive for every estimate computed under a configuration with
  positive bandwidth, capacity, delay and transmit power, for a task of non-negative
  length and size.
\<close>

lemma normalisers_positive:
  assumes "compute_estimates cfg num_devices servers ev = Inr est"
    and "0 < wan_bandwidth cfg" and "0 < cloud_mips cfg" and "0 < wan_propagation_delay cfg"
    and "0 < mobile_power_transmit cfg" and "0 \<le> mobile_power_idle cfg"
    and "0 \<le> ev_task_len ev" and "0 \<le> ev_data_size ev"
  shows "0 < Max {local_time est, edge_time est, cloud_time est, deadline}
       \<and> 0 < Max {local_energy est, edge_energy est, cloud_energy est}"
proof -
  let ?wan = "(ev_data_size ev * 8) / (wan_bandwidth cfg * 1000) + wan_propagation_delay cfg"
  let ?proc = "ev_task_len ev / cloud_mips cfg"
  have ct: "cloud_time est = ?wan * 2 + ?proc"
    and ce: "cloud_energy est = mobile_power_transmit cfg * ?wan * 2 + mobile_power_idle cfg * ?proc"
    using assms(1) by (auto simp add: compute_estimates_def Let_def split: if_splits)
  have w: "0 < ?wan" using assms(2,4,8) by (simp add: add_nonneg_pos)
  have p: "0 \<le> ?proc" using assms(3,7) by simp
  have "0 < cloud_time est" unfolding ct using w p by (simp add: add_pos_nonneg)
  moreover have "0 < cloud_energy est"
  proof -
    have a: "0 < mobile_power_transmit cfg * ?wan * 2"
      using w assms(5) by (intro mult_pos_pos) simp_all
    have b: "0 \<le> mobile_power_idle cfg * ?proc"
      using p assms(6) by (rule mult_nonneg_nonneg [rotated])
    show ?thesis unfolding ce using a b by (rule add_pos_nonneg)
  qed
  ultimately show ?thesis by (simp add: less_max_iff_disj)
qed

lemma busy_util: "avg_util busy_servers 30 = 90"
  by (simp add: avg_util_def mean_def get_utilization_def busy_servers_def run_calls_def
      update_def submit_task_def can_accept_task_def EdgeServer_init_def Let_def)

lemma busy_can_accept: "can_accept_task (busy_servers ! best_server_idx est1)"
  by (simp add: busy_servers_def run_calls_def est1_def
      update_def submit_task_def can_accept_task_def EdgeServer_init_def Let_def)

lemma est1_computed: "compute_estimates cfg1 1 idle_servers ev1 = Inr est1"
  by (simp add: compute_estimates_def cfg1_def SimConfig_default_def idle_servers_def ev1_def
      est1_def Let_def load_factor_def estimate_wait_time_def EdgeServer_init_def)

theorem eadc_scores_formula_witness:
  "busy_servers \<noteq> []
   \<and> 0 < Max {local_time est1, edge_time est1, cloud_time est1, 1 / 10}
   \<and> 0 < Max {local_energy est1, edge_energy est1, cloud_energy est1}
   \<and> avg_util busy_servers 30 = 90
   \<and> can_accept_task (busy_servers ! best_server_idx est1)
   \<and> eadc_scores cfg1 app0 (1 / 10) 30 busy_servers est1
       = (Fin (709215417 / 4532650000), Fin (931155869 / 22663250000), PInf)"
proof -
  have h1: "busy_servers \<noteq> []" by (simp add: busy_servers_def)
  have h2: "0 < Max {local_time est1, edge_time est1, cloud_time est1, 1 / 10}"
    by (simp add: est1_def)
  have h3: "0 < Max {local_energy est1, edge_energy est1, cloud_energy est1}"
    by (simp add: est1_def)
  have u: "sum_list (map (\<lambda>srv. get_utilization srv 30) busy_servers)
             / real (length busy_servers) = 90"
    using busy_util by (simp add: avg_util_def mean_def)
  have tn: "Max {local_time est1, edge_time est1, cloud_time est1, 1 / 10} = 337 / 2000"
    by (simp add: est1_def)
  have en: "Max {local_energy est1, edge_energy est1, cloud_energy est1} = 807 / 4000"
    by (simp add: est1_def)
  have "eadc_scores cfg1 app0 (1 / 10) 30 busy_servers est1
       = (Fin (709215417 / 4532650000), Fin (931155869 / 22663250000), PInf)"
    unfolding eadc_scores_formula [OF h1 h2 h3, of cfg1 app0 30] Let_def u tn en
    using busy_can_accept
    by (simp add: est1_def cfg1_def SimConfig_default_def app0_def)
  then show ?thesis using h1 h2 h3 busy_util busy_can_accept by (intro conjI)
qed

section \<open>Carrying out a decision\<close>

lemma submit_accepted:
  assumes "can_accept_task s"
  shows "submit_task s now pt =
          ((Some (estimate_wait_time s now + pt), False), snd (submit_task s now pt))"
  using assms by (simp add: submit_task_def Let_def estimate_wait_time_def foldl_plus_sum_list)

lemma commit_MOBILE:
  "commit rnd st MOBILE t est =
     Inr (Executed (local_time est * jitter (rnd (rng_pos st)))
            (local_energy est * jitter (rnd (rng_pos st + 1)))
            (st\<lparr>results := (results st)\<lparr>local := local (results st) + 1\<rparr>,
               rng_pos := rng_pos st + 2\<rparr>))"
  by (simp add: commit_def Let_def)

lemma commit_CLOUD:
  "commit rnd st CLOUD t est =
     Inr (Executed (cloud_time est * jitter (rnd (rng_pos st)))
            (cloud_energy est * jitter (rnd (rng_pos st + 1)))
            (st\<lparr>results := (results st)\<lparr>cloud := cloud (results st) + 1\<rparr>,
               rng_pos := rng_pos st + 2\<rparr>))"
  by (simp add: commit_def Let_def)

lemma commit_EDGE_full:
  assumes "\<not> can_accept_task (edge_servers st ! best_server_idx est)"
  shows "commit rnd st EDGE t est =
     Inr (Executed (cloud_time est * jitter (rnd (rng_pos st)))
            (cloud_energy est * jitter (rnd (rng_pos st + 1)))
            (st\<lparr>results := (results st)\<lparr>cloud := cloud (results st) + 1,
                     edge_rejected := edge_rejected (results st) + 1\<rparr>,
               rng_pos := rng_pos st + 2\<rparr>))"
  using assms by (simp add: commit_def Let_def)

lemma commit_EDGE_free:
  assumes "can_accept_task (edge_servers st ! best_server_idx est)"
  shows "commit rnd st EDGE t est =
     Inr (Executed
            ((wlan_delay est * 2
              + (estimate_wait_time (edge_servers st ! best_server_idx est) t
                 + edge_processing est)) * jitter (rnd (rng_pos st)))
            (edge_energy est * jitter (rnd (rng_pos st + 1)))
            (st\<lparr>edge_servers := (edge_servers st)
                   [best_server_idx est :=
                      snd (submit_task (edge_servers st ! best_server_idx est) t
                             (edge_processing est))],
               results := (results st)\<lparr>edge := edge (results st) + 1\<rparr>,
               rng_pos := rng_pos st + 2\<rparr>))"
proof -
  obtain svc fl s' where
    r: "submit_task (edge_servers st ! best_server_idx est) t (edge_processing est)
          = ((svc, fl), s')"
    by (cases "submit_task (edge_servers st ! best_server_idx est) t (edge_processing est)")
       auto
  have "((svc, fl), s') =
      ((Some (estimate_wait_time (edge_servers st ! best_server_idx est) t
              + edge_processing est), False), s')"
    using submit_accepted [OF assms, of t "edge_processing est"] unfolding r by simp
  then have v: "svc = Some (estimate_wait_time (edge_servers st ! best_server_idx est) t
              + edge_processing est)" and f: "fl = False"
    by simp_all
  show ?thesis
    unfolding commit_def Let_def r using assms v f by simp
qed

text \<open>
  Claim C10. Carrying out a decision never leaves through the \<^verbatim>\<open>continue\<close> of the
  rejection branch: it always reaches the end of the block, the \<open>failed\<close> counter
  untouched and exactly one of the three execution counters raised by one. For an Edge
  decision on a full queue the pre-check re-routes the task to Cloud and counts an edge
  rejection; otherwise \<^verbatim>\<open>submit_task\<close> is called on the server that has just accepted,
  and it accepts.
\<close>

theorem commit_never_skips:
  "(\<exists>actual_time energy st'.
       commit rnd st decision t est = Inr (Executed actual_time energy st')
       \<and> failed (results st') = failed (results st)
       \<and> local (results st') + edge (results st') + cloud (results st')
           = local (results st) + edge (results st) + cloud (results st) + 1)
   \<and> (decision = EDGE \<and> \<not> can_accept_task (edge_servers st ! best_server_idx est) \<longrightarrow>
        commit rnd st decision t est =
          Inr (Executed (cloud_time est * jitter (rnd (rng_pos st)))
                 (cloud_energy est * jitter (rnd (rng_pos st + 1)))
                 (st\<lparr>results := (results st)\<lparr>cloud := cloud (results st) + 1,
                          edge_rejected := edge_rejected (results st) + 1\<rparr>,
                     rng_pos := rng_pos st + 2\<rparr>)))
   \<and> (decision = EDGE \<and> can_accept_task (edge_servers st ! best_server_idx est) \<longrightarrow>
        (\<exists>actual_time energy st'.
           commit rnd st decision t est = Inr (Executed actual_time energy st')
           \<and> fst (submit_task (edge_servers st ! best_server_idx est) t (edge_processing est))
               = (Some (estimate_wait_time (edge_servers st ! best_server_idx est) t
                        + edge_processing est), False)
           \<and> edge_servers st' = (edge_servers st)
               [best_server_idx est :=
                  snd (submit_task (edge_servers st ! best_server_idx est) t (edge_processing est))]
           \<and> edge (results st') = edge (results st) + 1
           \<and> edge_rejected (results st') = edge_rejected (results st)))"
proof -
  let ?s = "edge_servers st ! best_server_idx est"
  have part1: "\<exists>actual_time energy st'.
       commit rnd st decision t est = Inr (Executed actual_time energy st')
       \<and> failed (results st') = failed (results st)
       \<and> local (results st') + edge (results st') + cloud (results st')
           = local (results st) + edge (results st) + cloud (results st) + 1"
  proof (cases decision)
    case MOBILE
    show ?thesis unfolding MOBILE commit_MOBILE by simp
  next
    case CLOUD
    show ?thesis unfolding CLOUD commit_CLOUD by simp
  next
    case EDGE
    show ?thesis
    proof (cases "can_accept_task ?s")
      case True
      show ?thesis unfolding EDGE commit_EDGE_free [OF True] by simp
    next
      case False
      show ?thesis unfolding EDGE commit_EDGE_full [OF False] by simp
    qed
  qed
  have part2: "decision = EDGE \<and> \<not> can_accept_task ?s \<longrightarrow>
        commit rnd st decision t est =
          Inr (Executed (cloud_time est * jitter (rnd (rng_pos st)))
                 (cloud_energy est * jitter (rnd (rng_pos st + 1)))
                 (st\<lparr>results := (results st)\<lparr>cloud := cloud (results st) + 1,
                          edge_rejected := edge_rejected (results st) + 1\<rparr>,
                     rng_pos := rng_pos st + 2\<rparr>))"
    using commit_EDGE_full by blast
  have part3: "decision = EDGE \<and> can_accept_task ?s \<longrightarrow>
        (\<exists>actual_time energy st'.
           commit rnd st decision t est = Inr (Executed actual_time energy st')
           \<and> fst (submit_task ?s t (edge_processing est))
               = (Some (estimate_wait_time ?s t + edge_processing est), False)
           \<and> edge_servers st' = (edge_servers st)
               [best_server_idx est := snd (submit_task ?s t (edge_processing est))]
           \<and> edge (results st') = edge (results st) + 1
           \<and> edge_rejected (results st') = edge_rejected (results st))"
  proof
    assume a: "decision = EDGE \<and> can_accept_task ?s"
    then have d: "decision = EDGE" and c: "can_accept_task ?s" by simp_all
    have f: "fst (submit_task ?s t (edge_processing est))
               = (Some (estimate_wait_time ?s t + edge_processing est), False)"
      using submit_accepted [OF c, of t "edge_processing est"] by (metis fst_conv)
    show "\<exists>actual_time energy st'.
           commit rnd st decision t est = Inr (Executed actual_time energy st')
           \<and> fst (submit_task ?s t (edge_processing est))
               = (Some (estimate_wait_time ?s t + edge_processing est), False)
           \<and> edge_servers st' = (edge_servers st)
               [best_server_idx est := snd (submit_task ?s t (edge_processing est))]
           \<and> edge (results st') = edge (results st) + 1
           \<and> edge_rejected (results st') = edge_rejected (results st)"
      unfolding d commit_EDGE_free [OF c] using f by simp
  qed
  show ?thesis using part1 part2 part3 by (intro conjI)
qed

lemma full_state_full: "\<not> can_accept_task (edge_servers full_state ! best_server_idx est1)"
  by (simp add: full_state_def full_servers_def est1_def can_accept_task_def submit_task_def
      EdgeServer_init_def Let_def)

lemma initial_state_free:
  "can_accept_task (edge_servers (initial_state cfg1) ! best_server_idx est1)"
  by (simp add: initial_state_def cfg1_def SimConfig_default_def est1_def can_accept_task_def
      EdgeServer_init_def)

lemma initial_state_wait:
  "estimate_wait_time (edge_servers (initial_state cfg1) ! best_server_idx est1) 30 = 0"
  by (simp add: initial_state_def cfg1_def SimConfig_default_def est1_def
      estimate_wait_time_def EdgeServer_init_def)

theorem commit_never_skips_witness:
  "\<not> can_accept_task (edge_servers full_state ! best_server_idx est1)
   \<and> commit rnd0 full_state EDGE 30 est1 =
       Inr (Executed (cloud_time est1 * jitter (rnd0 (rng_pos full_state)))
              (cloud_energy est1 * jitter (rnd0 (rng_pos full_state + 1)))
              (full_state\<lparr>results := (results full_state)
                               \<lparr>cloud := cloud (results full_state) + 1,
                                edge_rejected := edge_rejected (results full_state) + 1\<rparr>,
                          rng_pos := rng_pos full_state + 2\<rparr>))
   \<and> can_accept_task (edge_servers (initial_state cfg1) ! best_server_idx est1)
   \<and> fst (submit_task (edge_servers (initial_state cfg1) ! best_server_idx est1) 30
            (edge_processing est1)) = (Some (1 / 800), False)"
proof -
  have a: "commit rnd0 full_state EDGE 30 est1 =
       Inr (Executed (cloud_time est1 * jitter (rnd0 (rng_pos full_state)))
              (cloud_energy est1 * jitter (rnd0 (rng_pos full_state + 1)))
              (full_state\<lparr>results := (results full_state)
                               \<lparr>cloud := cloud (results full_state) + 1,
                                edge_rejected := edge_rejected (results full_state) + 1\<rparr>,
                          rng_pos := rng_pos full_state + 2\<rparr>))"
    using commit_never_skips [of rnd0 full_state EDGE 30 est1] full_state_full by simp
  have "fst (submit_task (edge_servers (initial_state cfg1) ! best_server_idx est1) 30
            (edge_processing est1))
        = (Some (estimate_wait_time (edge_servers (initial_state cfg1) ! best_server_idx est1) 30
                 + edge_processing est1), False)"
    using commit_never_skips [of rnd0 "initial_state cfg1" EDGE 30 est1] initial_state_free
    by blast
  then have b: "fst (submit_task (edge_servers (initial_state cfg1) ! best_server_idx est1) 30
            (edge_processing est1)) = (Some (1 / 800), False)"
    unfolding initial_state_wait by (simp add: est1_def)
  show ?thesis using full_state_full a initial_state_free b by (intro conjI)
qed

section \<open>The aggregator loop\<close>

lemmas loop_defs = process_event_def compute_estimates_def decide_def commit_def
  record_outcome_def edge_only_decide_def random_decide_def greedy_deadline_decide_def
  initial_state_def cfg1_def SimConfig_default_def ev_warm_def ev1_def ev2_def app0_def
  rnd0_def jitter_def load_factor_def update_def estimate_wait_time_def submit_task_def
  can_accept_task_def EdgeServer_init_def Let_def

text \<open>
  Claim C6 as stated does not hold: a task that arrives inside the warm-up period is
  not handed to the policy and not admitted. Under the policy that always chooses Edge,
  the warm-up task leaves the idle server idle; the same task on the same state with
  the warm-up period over is admitted. Under the random policy no draw is consumed.
\<close>

theorem warm_up_admission_counterexample:
  "ev_t ev_warm < warm_up_period cfg1
   \<and> process_event rnd0 ''EDGE_ONLY'' 1 cfg1 (initial_state cfg1) ev_warm
       = Inr (initial_state cfg1)
   \<and> process_event rnd0 ''RANDOM'' 1 cfg1 (initial_state cfg1) ev_warm
       = Inr (initial_state cfg1)
   \<and> process_event rnd0 ''EDGE_ONLY'' 1 (cfg1\<lparr>warm_up_period := 10\<rparr>)
         (initial_state cfg1) ev_warm = Inr admitted_state
   \<and> edge_servers admitted_state \<noteq> edge_servers (initial_state cfg1)
   \<and> rng_pos admitted_state \<noteq> rng_pos (initial_state cfg1)"
proof -
  have a: "ev_t ev_warm < warm_up_period cfg1"
    by (simp add: ev_warm_def cfg1_def SimConfig_default_def)
  have b: "process_event rnd0 ''EDGE_ONLY'' 1 cfg1 (initial_state cfg1) ev_warm
       = Inr (initial_state cfg1)"
    by (simp add: loop_defs)
  have c: "process_event rnd0 ''RANDOM'' 1 cfg1 (initial_state cfg1) ev_warm
       = Inr (initial_state cfg1)"
    by (simp add: loop_defs)
  have d: "process_event rnd0 ''EDGE_ONLY'' 1 (cfg1\<lparr>warm_up_period := 10\<rparr>)
         (initial_state cfg1) ev_warm = Inr admitted_state"
    by (simp add: loop_defs admitted_state_def)
  have e: "edge_servers admitted_state \<noteq> edge_servers (initial_state cfg1)"
    by (simp add: admitted_state_def initial_state_def cfg1_def SimConfig_default_def
        EdgeServer_init_def)
  have f: "rng_pos admitted_state \<noteq> rng_pos (initial_state cfg1)"
    by (simp add: admitted_state_def initial_state_def)
  show ?thesis using a b c d e f by (intro conjI)
qed

text \<open>
  Claim C6, amended. For a task that arrives before the end of the warm-up period the
  loop advances the clock of every server to the arrival time and goes on to the next
  event: the results and the random stream are untouched, the policy is not invoked,
  and no server queue grows, the busy times and \<open>next_available\<close> staying as they were.
\<close>

theorem warm_up_event_skipped:
  assumes "ev_t ev < warm_up_period cfg"
  shows "process_event rnd policy num_devices cfg st ev
           = Inr (st\<lparr>edge_servers := map (\<lambda>s. update s (ev_t ev)) (edge_servers st)\<rparr>)
       \<and> (\<forall>st'. process_event rnd policy num_devices cfg st ev = Inr st' \<longrightarrow>
             results st' = results st \<and> rng_pos st' = rng_pos st
             \<and> length (edge_servers st') = length (edge_servers st)
             \<and> (\<forall>i<length (edge_servers st).
                   length (queued_processing_times (edge_servers st' ! i))
                     \<le> length (queued_processing_times (edge_servers st ! i))
                   \<and> next_available (edge_servers st' ! i)
                       = next_available (edge_servers st ! i)
                   \<and> total_busy_time (edge_servers st' ! i)
                       = total_busy_time (edge_servers st ! i)))"
proof -
  have step: "process_event rnd policy num_devices cfg st ev
           = Inr (st\<lparr>edge_servers := map (\<lambda>s. update s (ev_t ev)) (edge_servers st)\<rparr>)"
    using assms by (simp add: process_event_def Let_def)
  have frame: "length (queued_processing_times (update s now))
                 \<le> length (queued_processing_times s)
               \<and> next_available (update s now) = next_available s
               \<and> total_busy_time (update s now) = total_busy_time s" for s now
    using length_update [of s now] update_frame [of s now] by simp
  show ?thesis unfolding step using frame by simp
qed

theorem warm_up_event_skipped_witness:
  "ev_t ev_warm < warm_up_period cfg1
   \<and> process_event rnd0 ''EDGE_ONLY'' 1 cfg1 (initial_state cfg1) ev_warm
       = Inr ((initial_state cfg1)
                \<lparr>edge_servers := map (\<lambda>s. update s (ev_t ev_warm))
                                     (edge_servers (initial_state cfg1))\<rparr>)
   \<and> map queued_processing_times (edge_servers (initial_state cfg1)) = [[]]"
proof -
  have a: "ev_t ev_warm < warm_up_period cfg1"
    by (simp add: ev_warm_def cfg1_def SimConfig_default_def)
  have b: "map queued_processing_times (edge_servers (initial_state cfg1)) = [[]]"
    by (simp add: initial_state_def cfg1_def SimConfig_default_def EdgeServer_init_def)
  show ?thesis
    using warm_up_event_skipped [OF a, of rnd0 "''EDGE_ONLY''" 1 "initial_state cfg1"] a b
    by (intro conjI) simp_all
qed

lemmas run_defs = run_simulation_def deadline_rate_of_def servers_of_def deadline_rate_def
  loop_defs

text \<open>
  Claim C8 as stated does not hold. Two tasks arrive together on one server of queue
  depth 1. GreedyDeadline sends the first to Edge and, the edge estimate still being
  the smallest, chooses Edge for the second, which is re-routed to Cloud on the full
  queue and misses its deadline: rate 1/2. Random, with draws that choose Edge and then
  Local, meets both: rate 1. The servers are the same at both decision points.
\<close>

theorem greedy_deadline_rate_counterexample:
  "deadline_rate_of (run_simulation rnd0 ''GREEDY_DEADLINE'' 1 cfg1 [ev1, ev2]) = Inr (1 / 2)
   \<and> deadline_rate_of (run_simulation rnd0 ''RANDOM'' 1 cfg1 [ev1, ev2]) = Inr 1
   \<and> servers_of (run_simulation rnd0 ''GREEDY_DEADLINE'' 1 cfg1 [ev1])
       = servers_of (run_simulation rnd0 ''RANDOM'' 1 cfg1 [ev1])"
proof -
  have g: "deadline_rate_of (run_simulation rnd0 ''GREEDY_DEADLINE'' 1 cfg1 [ev1, ev2])
             = Inr (1 / 2)"
    by (simp add: run_defs)
  have r: "deadline_rate_of (run_simulation rnd0 ''RANDOM'' 1 cfg1 [ev1, ev2]) = Inr 1"
    by (simp add: run_defs)
  have s: "servers_of (run_simulation rnd0 ''GREEDY_DEADLINE'' 1 cfg1 [ev1])
       = servers_of (run_simulation rnd0 ''RANDOM'' 1 cfg1 [ev1])"
    by (simp add: run_defs)
  show ?thesis using g r s by (intro conjI)
qed

lemma compute_estimates_edge_time:
  assumes "compute_estimates cfg num_devices servers ev = Inr est"
  shows "edge_time est = wlan_delay est * 2 + edge_processing est
           + estimate_wait_time (servers ! best_server_idx est) (ev_t ev)"
  using assms by (auto simp add: compute_estimates_def Let_def split: if_splits)

lemma commit_actual_time:
  assumes c: "commit rnd st decision t est = Inr (Executed a e st')"
    and et: "edge_time est = wlan_delay est * 2 + edge_processing est
               + estimate_wait_time (edge_servers st ! best_server_idx est) t"
  shows "a = time_at est
               (if decision = EDGE \<and> \<not> can_accept_task (edge_servers st ! best_server_idx est)
                then CLOUD else decision) * jitter (rnd (rng_pos st))"
proof (cases decision)
  case MOBILE
  show ?thesis using c unfolding MOBILE commit_MOBILE by simp
next
  case CLOUD
  show ?thesis using c unfolding CLOUD commit_CLOUD by simp
next
  case EDGE
  show ?thesis
  proof (cases "can_accept_task (edge_servers st ! best_server_idx est)")
    case True
    show ?thesis using c True unfolding EDGE commit_EDGE_free [OF True]
      by (auto simp add: et add.assoc add.commute)
  next
    case False
    show ?thesis using c False unfolding EDGE commit_EDGE_full [OF False] by simp
  qed
qed

text \<open>
  Claim C8, amended. At every decision GreedyDeadline picks a location of minimum
  estimated time. When its choice is carried out as chosen (it is not Edge on a full
  queue), then on the same state and the same jitter draw its realised service time is
  at most that of any other decision, so it meets the deadline whenever the other does.
\<close>

theorem greedy_deadline_realized_time:
  assumes est: "compute_estimates cfg num_devices (edge_servers st) ev = Inr est"
    and draw: "0 \<le> rnd (rng_pos st)"
    and kept: "can_accept_task (edge_servers st ! best_server_idx est)
               \<or> greedy_deadline_decide est \<noteq> EDGE"
    and g: "commit rnd st (greedy_deadline_decide est) (ev_t ev) est
              = Inr (Executed a1 e1 st1)"
    and d: "commit rnd st decision (ev_t ev) est = Inr (Executed a2 e2 st2)"
  shows "(\<forall>x. time_at est (greedy_deadline_decide est) \<le> time_at est x)
       \<and> a1 \<le> a2
       \<and> (a2 \<le> ev_deadline ev \<longrightarrow> a1 \<le> ev_deadline ev)"
proof -
  let ?j = "jitter (rnd (rng_pos st))"
  have et: "edge_time est = wlan_delay est * 2 + edge_processing est
               + estimate_wait_time (edge_servers st ! best_server_idx est) (ev_t ev)"
    using est by (rule compute_estimates_edge_time)
  have j: "0 \<le> ?j" using draw by (simp add: jitter_def)
  have mn: "\<forall>x. time_at est (greedy_deadline_decide est) \<le> time_at est x"
    using greedy_deadline_minimal by blast
  have a1: "a1 = time_at est (greedy_deadline_decide est) * ?j"
    using commit_actual_time [OF g et] kept by auto
  obtain x where a2: "a2 = time_at est x * ?j"
    using commit_actual_time [OF d et] by blast
  have le: "a1 \<le> a2"
    unfolding a1 a2 using mn j by (simp add: mult_right_mono)
  show ?thesis using mn le by auto
qed

lemma initial_cfg1: "edge_servers (initial_state cfg1) = idle_servers"
  by (simp add: initial_state_def cfg1_def SimConfig_default_def idle_servers_def)

theorem greedy_deadline_realized_time_witness:
  "compute_estimates cfg1 1 (edge_servers (initial_state cfg1)) ev1 = Inr est1
   \<and> 0 \<le> rnd0 (rng_pos (initial_state cfg1))
   \<and> can_accept_task (edge_servers (initial_state cfg1) ! best_server_idx est1)
   \<and> greedy_deadline_decide est1 = EDGE
   \<and> time_at est1 EDGE \<le> time_at est1 MOBILE
   \<and> (89 / 20000 :: real) \<le> 401 / 20000"
proof -
  have h1: "compute_estimates cfg1 1 (edge_servers (initial_state cfg1)) ev1 = Inr est1"
    unfolding initial_cfg1 by (rule est1_computed)
  have h2: "0 \<le> rnd0 (rng_pos (initial_state cfg1))"
    by (simp add: rnd0_def initial_state_def)
  have h3: "can_accept_task (edge_servers (initial_state cfg1) ! best_server_idx est1)
            \<or> greedy_deadline_decide est1 \<noteq> EDGE"
    using initial_state_free by simp
  have gd: "greedy_deadline_decide est1 = EDGE"
    by (simp add: greedy_deadline_decide_def est1_def)
  have h4: "commit rnd0 (initial_state cfg1) (greedy_deadline_decide est1) (ev_t ev1) est1
      = Inr (Executed (89 / 20000) (39621 / 10000000)
          ((initial_state cfg1)
             \<lparr>edge_servers := (edge_servers (initial_state cfg1))
                [best_server_idx est1 :=
                   snd (submit_task (edge_servers (initial_state cfg1) ! best_server_idx est1)
                          (ev_t ev1) (edge_processing est1))],
              results := (results (initial_state cfg1))
                \<lparr>edge := edge (results (initial_state cfg1)) + 1\<rparr>,
              rng_pos := rng_pos (initial_state cfg1) + 2\<rparr>))"
    unfolding gd commit_EDGE_free [OF initial_state_free]
    by (simp add: ev1_def est1_def rnd0_def jitter_def initial_state_def cfg1_def
        SimConfig_default_def estimate_wait_time_def EdgeServer_init_def)
  have h5: "commit rnd0 (initial_state cfg1) MOBILE (ev_t ev1) est1
      = Inr (Executed (401 / 20000) (339246 / 10000000)
          ((initial_state cfg1)
             \<lparr>results := (results (initial_state cfg1))
                \<lparr>local := local (results (initial_state cfg1)) + 1\<rparr>,
              rng_pos := rng_pos (initial_state cfg1) + 2\<rparr>))"
    unfolding commit_MOBILE
    by (simp add: est1_def rnd0_def jitter_def initial_state_def)
  have w: "(\<forall>x. time_at est1 (greedy_deadline_decide est1) \<le> time_at est1 x)
           \<and> (89 / 20000 :: real) \<le> 401 / 20000"
    using greedy_deadline_realized_time [OF h1 h2 h3 h4 h5] by blast
  then have w1: "time_at est1 EDGE \<le> time_at est1 MOBILE" unfolding gd by blast
  show ?thesis using h1 h2 initial_state_free gd w1 w by (intro conjI) simp_all
qed

end
